theory Spec2Isabelle
  imports Main "HOL-Library.Sublist" "HOL-Library.AList"
begin

section \<open>Data model\<close>

text \<open>
  The raw record of the key-value store (\<open>mvccpb.KeyValue\<close>): the code reads
  \<open>Value\<close> and hands the whole record on; the revision is carried along unread.
\<close>

record KeyValue =
  Key :: string
  Value :: string
  ModRevision :: int

text \<open>
  The entities of package \<open>spec\<close>, with the fields the repository and the informer read.
  The zero values are what \<open>&spec.Service{}\<close> and its siblings allocate.
\<close>

record Service =
  svcName :: string
  svcRegisterTenant :: string

record Tenant =
  tenantName :: string
  tenantServices :: "string list"

record ServiceInstanceSpec =
  specServiceName :: string
  specInstanceID :: string

record ServiceInstanceStatus =
  statusServiceName :: string
  statusInstanceID :: string

record Ingress =
  ingressName :: string

definition zeroService :: Service where
  "zeroService = \<lparr>svcName = [], svcRegisterTenant = []\<rparr>"

definition zeroTenant :: Tenant where
  "zeroTenant = \<lparr>tenantName = [], tenantServices = []\<rparr>"

definition zeroServiceInstanceSpec :: ServiceInstanceSpec where
  "zeroServiceInstanceSpec = \<lparr>specServiceName = [], specInstanceID = []\<rparr>"

definition zeroServiceInstanceStatus :: ServiceInstanceStatus where
  "zeroServiceInstanceStatus = \<lparr>statusServiceName = [], statusInstanceID = []\<rparr>"

definition zeroIngress :: Ingress where
  "zeroIngress = \<lparr>ingressName = []\<rparr>"

text \<open>
  Modelled from the spec: the constant \<open>spec.GlobalTenant\<close> is declared in package
  \<open>spec\<close>; the specification gives the distinguished tenant name as \<open>GLOBAL\<close>.
\<close>

definition GlobalTenant :: string where
  "GlobalTenant = ''GLOBAL''"

text \<open>
  Errors: the three sentinel errors of the informer, an error handed back by the store,
  the cluster-fatal signal \<open>api.ClusterPanic\<close> and a Go \<open>panic\<close> (the BUG branches).
\<close>

datatype error =
    ErrAlreadyWatched
  | ErrClosed
  | ErrNotFound
  | StoreError string
  | ClusterPanic string
  | Panic string


section \<open>The store\<close>

text \<open>
  Modelled from the spec: the interface \<open>storage.Storage\<close> and \<open>cluster.Syncer\<close> are
  external to the code under study. The store is a key-value list (one record per key, in
  the iteration order of a scan); \<open>fault\<close> set makes every call return that error, and
  \<open>syncFault\<close> does so for the \<open>Sync*\<close> calls of a syncer. A syncer is a handle
  (a number); \<open>channels\<close> remembers what each handle was asked to watch
  (\<open>True\<close> for a prefix), and \<open>closedSyncers\<close> holds the handles whose \<open>Close\<close> ran.
\<close>

record Storage =
  kvs :: "KeyValue list"
  revision :: int
  fault :: "string option"
  syncFault :: "string option"
  nextSyncer :: nat
  channels :: "(nat \<times> bool \<times> string) list"
  closedSyncers :: "nat set"

fun putKV :: "KeyValue \<Rightarrow> KeyValue list \<Rightarrow> KeyValue list" where
  "putKV new [] = [new]"
| "putKV new (kv # rest) =
     (if Key kv = Key new then new # rest else kv # putKV new rest)"

definition storeGetRaw :: "Storage \<Rightarrow> string \<Rightarrow> string + KeyValue option" where
  "storeGetRaw st k =
     (case fault st of
        Some err \<Rightarrow> Inl err
      | None \<Rightarrow> Inr (find (\<lambda>kv. Key kv = k) (kvs st)))"

definition storeGet :: "Storage \<Rightarrow> string \<Rightarrow> string + string option" where
  "storeGet st k =
     (case storeGetRaw st k of
        Inl err \<Rightarrow> Inl err
      | Inr kv \<Rightarrow> Inr (map_option Value kv))"

definition storeGetRawPrefix :: "Storage \<Rightarrow> string \<Rightarrow> string + KeyValue list" where
  "storeGetRawPrefix st p =
     (case fault st of
        Some err \<Rightarrow> Inl err
      | None \<Rightarrow> Inr (filter (\<lambda>kv. prefix p (Key kv)) (kvs st)))"

definition storeGetPrefix :: "Storage \<Rightarrow> string \<Rightarrow> string + (string \<times> string) list" where
  "storeGetPrefix st p =
     (case storeGetRawPrefix st p of
        Inl err \<Rightarrow> Inl err
      | Inr found \<Rightarrow> Inr (map (\<lambda>kv. (Key kv, Value kv)) found))"

definition storePut :: "Storage \<Rightarrow> string \<Rightarrow> string \<Rightarrow> string + Storage" where
  "storePut st k v =
     (case fault st of
        Some err \<Rightarrow> Inl err
      | None \<Rightarrow>
          Inr (st\<lparr>kvs := putKV \<lparr>Key = k, Value = v, ModRevision = revision st + 1\<rparr> (kvs st),
                  revision := revision st + 1\<rparr>))"

definition storeDelete :: "Storage \<Rightarrow> string \<Rightarrow> string + Storage" where
  "storeDelete st k =
     (case fault st of
        Some err \<Rightarrow> Inl err
      | None \<Rightarrow>
          Inr (st\<lparr>kvs := filter (\<lambda>kv. Key kv \<noteq> k) (kvs st),
                  revision := revision st + 1\<rparr>))"

text \<open>\<open>store.Syncer()\<close>: a fresh handle, or the store's error.\<close>

definition storeSyncer :: "Storage \<Rightarrow> string + (nat \<times> Storage)" where
  "storeSyncer st =
     (case fault st of
        Some err \<Rightarrow> Inl err
      | None \<Rightarrow> Inr (nextSyncer st, st\<lparr>nextSyncer := Suc (nextSyncer st)\<rparr>))"

text \<open>\<open>syncer.SyncRaw(key)\<close> and \<open>syncer.SyncPrefix(prefix)\<close>: the channel is opened.\<close>

definition syncerSyncRaw :: "Storage \<Rightarrow> nat \<Rightarrow> string \<Rightarrow> string + Storage" where
  "syncerSyncRaw st syncer k =
     (case syncFault st of
        Some err \<Rightarrow> Inl err
      | None \<Rightarrow> Inr (st\<lparr>channels := (syncer, False, k) # channels st\<rparr>))"

definition syncerSyncPrefix :: "Storage \<Rightarrow> nat \<Rightarrow> string \<Rightarrow> string + Storage" where
  "syncerSyncPrefix st syncer p =
     (case syncFault st of
        Some err \<Rightarrow> Inl err
      | None \<Rightarrow> Inr (st\<lparr>channels := (syncer, True, p) # channels st\<rparr>))"

text \<open>\<open>syncer.Close()\<close>: from then on the syncer's channel is closed.\<close>

definition syncerClose :: "Storage \<Rightarrow> nat \<Rightarrow> Storage" where
  "syncerClose st syncer = st\<lparr>closedSyncers := insert syncer (closedSyncers st)\<rparr>"


section \<open>Key layout\<close>

text \<open>
  Modelled from the spec: package \<open>layout\<close> is not among the sources; the keys and
  prefixes are those of the specification's key table.
\<close>

definition ServiceSpecPrefix :: string where
  "ServiceSpecPrefix = ''/services/spec/''"

definition ServiceSpecKey :: "string \<Rightarrow> string" where
  "ServiceSpecKey serviceName = ''/services/spec/'' @ serviceName"

definition AllServiceInstanceSpecPrefix :: string where
  "AllServiceInstanceSpecPrefix = ''/service-instances/spec/''"

definition ServiceInstanceSpecPrefix :: "string \<Rightarrow> string" where
  "ServiceInstanceSpecPrefix serviceName = ''/service-instances/spec/'' @ serviceName @ ''/''"

definition ServiceInstanceSpecKey :: "string \<Rightarrow> string \<Rightarrow> string" where
  "ServiceInstanceSpecKey serviceName instanceID =
     ''/service-instances/spec/'' @ serviceName @ ''/'' @ instanceID"

definition AllServiceInstanceStatusPrefix :: string where
  "AllServiceInstanceStatusPrefix = ''/service-instances/status/''"

definition ServiceInstanceStatusPrefix :: "string \<Rightarrow> string" where
  "ServiceInstanceStatusPrefix serviceName =
     ''/service-instances/status/'' @ serviceName @ ''/''"

definition ServiceInstanceStatusKey :: "string \<Rightarrow> string \<Rightarrow> string" where
  "ServiceInstanceStatusKey serviceName instanceID =
     ''/service-instances/status/'' @ serviceName @ ''/'' @ instanceID"

definition TenantPrefix :: string where
  "TenantPrefix = ''/tenants/''"

definition TenantSpecKey :: "string \<Rightarrow> string" where
  "TenantSpecKey t = ''/tenants/'' @ t"

definition IngressPrefix :: string where
  "IngressPrefix = ''/ingresses/''"

definition IngressSpecKey :: "string \<Rightarrow> string" where
  "IngressSpecKey ingress = ''/ingresses/'' @ ingress"

definition CustomResourceKindPrefix :: string where
  "CustomResourceKindPrefix = ''/custom-resource-kinds/''"

definition AllCustomResourcePrefix :: string where
  "AllCustomResourcePrefix = ''/custom-resources/''"

definition CustomResourcePrefix :: "string \<Rightarrow> string" where
  "CustomResourcePrefix kind = ''/custom-resources/'' @ kind @ ''/''"


section \<open>The repository (package service)\<close>

text \<open>
  \<open>yaml.Marshal\<close> and \<open>yaml.Unmarshal\<close> are parameters: \<open>marshal v\<close> is \<open>None\<close> when
  encoding fails, \<open>unmarshal s\<close> is \<open>None\<close> when \<open>s\<close> does not decode. The repository
  holds nothing but its store handle, so each operation takes the store and, when it
  writes, returns the new one; \<open>Inl\<close> is the process going down.
\<close>

definition PutServiceSpec ::
    "(Service \<Rightarrow> string option) \<Rightarrow> Storage \<Rightarrow> Service \<Rightarrow> error + Storage" where
  "PutServiceSpec marshal s serviceSpec =
     (case marshal serviceSpec of
        None \<Rightarrow> Inl (Panic ''BUG: marshal to yaml failed'')
      | Some buff \<Rightarrow>
          (case storePut s (ServiceSpecKey (svcName serviceSpec)) buff of
             Inl err \<Rightarrow> Inl (ClusterPanic err)
           | Inr s' \<Rightarrow> Inr s'))"

definition GetServiceSpecWithInfo ::
    "(string \<Rightarrow> Service option) \<Rightarrow> Storage \<Rightarrow> string
      \<Rightarrow> error + (Service option \<times> KeyValue option)" where
  "GetServiceSpecWithInfo unmarshal s serviceName =
     (case storeGetRaw s (ServiceSpecKey serviceName) of
        Inl err \<Rightarrow> Inl (ClusterPanic err)
      | Inr None \<Rightarrow> Inr (None, None)
      | Inr (Some kv) \<Rightarrow>
          (case unmarshal (Value kv) of
             None \<Rightarrow> Inl (Panic ''BUG: unmarshal to yaml failed'')
           | Some serviceSpec \<Rightarrow> Inr (Some serviceSpec, Some kv)))"

definition GetServiceSpec ::
    "(string \<Rightarrow> Service option) \<Rightarrow> Storage \<Rightarrow> string \<Rightarrow> error + Service option" where
  "GetServiceSpec unmarshal s serviceName =
     (case GetServiceSpecWithInfo unmarshal s serviceName of
        Inl err \<Rightarrow> Inl err
      | Inr (serviceSpec, _) \<Rightarrow> Inr serviceSpec)"

definition DeleteServiceSpec :: "Storage \<Rightarrow> string \<Rightarrow> error + Storage" where
  "DeleteServiceSpec s serviceName =
     (case storeDelete s (ServiceSpecKey serviceName) of
        Inl err \<Rightarrow> Inl (ClusterPanic err)
      | Inr s' \<Rightarrow> Inr s')"

text \<open>
  The loop every \<open>List*\<close> function runs over the scanned records:
  \<open>for _, v := range kvs\<close>, unmarshal \<open>v.Value\<close>, on error log and \<open>continue\<close>,
  otherwise append to the slice built so far.
\<close>

fun unmarshalEach :: "(string \<Rightarrow> 'a option) \<Rightarrow> 'a list \<Rightarrow> KeyValue list \<Rightarrow> 'a list" where
  "unmarshalEach unmarshal acc [] = acc"
| "unmarshalEach unmarshal acc (v # rest) =
     (case unmarshal (Value v) of
        None \<Rightarrow> unmarshalEach unmarshal acc rest
      | Some e \<Rightarrow> unmarshalEach unmarshal (acc @ [e]) rest)"

definition listPrefix :: "(string \<Rightarrow> 'a option) \<Rightarrow> Storage \<Rightarrow> string \<Rightarrow> error + 'a list" where
  "listPrefix unmarshal s p =
     (case storeGetRawPrefix s p of
        Inl err \<Rightarrow> Inl (ClusterPanic err)
      | Inr found \<Rightarrow> Inr (unmarshalEach unmarshal [] found))"

definition ListServiceSpecs :: "(string \<Rightarrow> Service option) \<Rightarrow> Storage \<Rightarrow> error + Service list" where
  "ListServiceSpecs unmarshal s = listPrefix unmarshal s ServiceSpecPrefix"

definition ListTenantSpecs :: "(string \<Rightarrow> Tenant option) \<Rightarrow> Storage \<Rightarrow> error + Tenant list" where
  "ListTenantSpecs unmarshal s = listPrefix unmarshal s TenantPrefix"

definition ListIngressSpecs :: "(string \<Rightarrow> Ingress option) \<Rightarrow> Storage \<Rightarrow> error + Ingress list" where
  "ListIngressSpecs unmarshal s = listPrefix unmarshal s IngressPrefix"

definition ListCustomResourceKinds :: "(string \<Rightarrow> 'k option) \<Rightarrow> Storage \<Rightarrow> error + 'k list" where
  "ListCustomResourceKinds unmarshal s = listPrefix unmarshal s CustomResourceKindPrefix"

definition ListCustomResources ::
    "(string \<Rightarrow> 'r option) \<Rightarrow> Storage \<Rightarrow> string \<Rightarrow> error + 'r list" where
  "ListCustomResources unmarshal s kind =
     listPrefix unmarshal s
       (if kind \<noteq> [] then CustomResourcePrefix kind else AllCustomResourcePrefix)"

definition listServiceInstanceStatuses ::
    "(string \<Rightarrow> ServiceInstanceStatus option) \<Rightarrow> Storage \<Rightarrow> bool \<Rightarrow> string
      \<Rightarrow> error + ServiceInstanceStatus list" where
  "listServiceInstanceStatuses unmarshal s all serviceName =
     listPrefix unmarshal s
       (if all then AllServiceInstanceStatusPrefix
        else ServiceInstanceSpecPrefix serviceName)"

definition ListAllServiceInstanceStatuses ::
    "(string \<Rightarrow> ServiceInstanceStatus option) \<Rightarrow> Storage \<Rightarrow> error + ServiceInstanceStatus list" where
  "ListAllServiceInstanceStatuses unmarshal s = listServiceInstanceStatuses unmarshal s True []"

definition ListServiceInstanceStatuses ::
    "(string \<Rightarrow> ServiceInstanceStatus option) \<Rightarrow> Storage \<Rightarrow> string
      \<Rightarrow> error + ServiceInstanceStatus list" where
  "ListServiceInstanceStatuses unmarshal s serviceName =
     listServiceInstanceStatuses unmarshal s False serviceName"

definition listServiceInstanceSpecs ::
    "(string \<Rightarrow> ServiceInstanceSpec option) \<Rightarrow> Storage \<Rightarrow> bool \<Rightarrow> string
      \<Rightarrow> error + ServiceInstanceSpec list" where
  "listServiceInstanceSpecs unmarshal s all serviceName =
     listPrefix unmarshal s
       (if all then AllServiceInstanceSpecPrefix
        else ServiceInstanceSpecPrefix serviceName)"

definition ListAllServiceInstanceSpecs ::
    "(string \<Rightarrow> ServiceInstanceSpec option) \<Rightarrow> Storage \<Rightarrow> error + ServiceInstanceSpec list" where
  "ListAllServiceInstanceSpecs unmarshal s = listServiceInstanceSpecs unmarshal s True []"

definition ListServiceInstanceSpecs ::
    "(string \<Rightarrow> ServiceInstanceSpec option) \<Rightarrow> Storage \<Rightarrow> string
      \<Rightarrow> error + ServiceInstanceSpec list" where
  "ListServiceInstanceSpecs unmarshal s serviceName =
     listServiceInstanceSpecs unmarshal s False serviceName"


section \<open>The informer (package informer)\<close>

type_synonym GJSONPath = string

definition EventUpdate :: string where
  "EventUpdate = ''Update''"

definition EventDelete :: string where
  "EventDelete = ''Delete''"

record Event =
  EventType :: string
  RawKV :: "KeyValue option"

text \<open>
  \<open>meshInformer\<close>: \<open>syncers\<close> is the Go map from syncerKey to syncer, kept as an
  association list with one entry per key; \<open>globalServices\<close> and \<open>service2Tenants\<close>
  are the two tenant indices. The mutex and the \<open>done\<close> channel have no counterpart:
  every operation below runs as one step.
\<close>

record meshInformer =
  store :: Storage
  syncers :: "(string \<times> nat) list"
  service :: string
  globalServices :: "string \<rightharpoonup> bool"
  service2Tenants :: "string \<rightharpoonup> string"
  closed :: bool

text \<open>Reading a Go map at a key it does not hold gives the zero value.\<close>

definition gsLookup :: "(string \<rightharpoonup> bool) \<Rightarrow> string \<Rightarrow> bool" where
  "gsLookup gs name = (case gs name of Some b \<Rightarrow> b | None \<Rightarrow> False)"

definition s2tLookup :: "(string \<rightharpoonup> string) \<Rightarrow> string \<Rightarrow> string" where
  "s2tLookup s2t name = (case s2t name of Some t \<Rightarrow> t | None \<Rightarrow> [])"

text \<open>
  A snapshot of a prefix (\<open>map[string]string\<close>) is the list of its entries in the order
  the \<open>range\<close> loop visits them; the keys of a Go map are distinct.
\<close>

text \<open>
  The first loop of \<open>updateGlobalServices\<close>: the first visited record that decodes to a
  tenant named \<open>GlobalTenant\<close> (\<open>break\<close>); undecodable records are skipped.
\<close>

fun findGlobalTenant :: "(string \<Rightarrow> Tenant option) \<Rightarrow> (string \<times> string) list \<Rightarrow> Tenant option" where
  "findGlobalTenant unmarshal [] = None"
| "findGlobalTenant unmarshal ((k, v) # rest) =
     (case unmarshal v of
        None \<Rightarrow> findGlobalTenant unmarshal rest
      | Some t \<Rightarrow>
          if tenantName t = GlobalTenant then Some t
          else findGlobalTenant unmarshal rest)"

fun servicesOf :: "string list \<Rightarrow> (string \<rightharpoonup> bool) \<Rightarrow> (string \<rightharpoonup> bool)" where
  "servicesOf [] services = services"
| "servicesOf (s # rest) services = servicesOf rest (services(s \<mapsto> True))"

definition updateGlobalServices ::
    "(string \<Rightarrow> Tenant option) \<Rightarrow> meshInformer \<Rightarrow> (string \<times> string) list
      \<Rightarrow> bool \<times> meshInformer" where
  "updateGlobalServices unmarshal infm snapshot =
     (case findGlobalTenant unmarshal snapshot of
        None \<Rightarrow> (True, infm)
      | Some tenant \<Rightarrow>
          (True, infm\<lparr>globalServices := servicesOf (tenantServices tenant) Map.empty\<rparr>))"

fun s2tOf ::
    "(string \<Rightarrow> Service option) \<Rightarrow> (string \<rightharpoonup> string) \<Rightarrow> (string \<times> string) list
      \<Rightarrow> (string \<rightharpoonup> string)" where
  "s2tOf unmarshal s2t [] = s2t"
| "s2tOf unmarshal s2t ((k, v) # rest) =
     (case unmarshal v of
        None \<Rightarrow> s2tOf unmarshal s2t rest
      | Some svc \<Rightarrow> s2tOf unmarshal (s2t(svcName svc \<mapsto> svcRegisterTenant svc)) rest)"

definition buildServiceToTenantMap ::
    "(string \<Rightarrow> Service option) \<Rightarrow> meshInformer \<Rightarrow> (string \<times> string) list
      \<Rightarrow> bool \<times> meshInformer" where
  "buildServiceToTenantMap unmarshal infm snapshot =
     (True, infm\<lparr>service2Tenants := s2tOf unmarshal Map.empty snapshot\<rparr>)"

definition stopSyncOneKey :: "meshInformer \<Rightarrow> string \<Rightarrow> meshInformer" where
  "stopSyncOneKey infm k =
     (case map_of (syncers infm) k of
        Some syncer \<Rightarrow>
          infm\<lparr>store := syncerClose (store infm) syncer,
              syncers := AList.delete k (syncers infm)\<rparr>
      | None \<Rightarrow> infm)"

text \<open>
  Registration. The callback is not part of the informer's state: the goroutine that
  \<open>go inf.sync(ch, syncerKey, fn)\<close> starts is the function \<open>sync\<close> below, run on the
  elements the new syncer's channel delivers.
\<close>

definition onSpecPart ::
    "meshInformer \<Rightarrow> string \<Rightarrow> string \<Rightarrow> GJSONPath \<Rightarrow> error option \<times> meshInformer" where
  "onSpecPart infm storeKey syncerKey gjsonPath =
     (if closed infm then (Some ErrClosed, infm)
      else if map_of (syncers infm) syncerKey \<noteq> None then (Some ErrAlreadyWatched, infm)
      else
        (case storeSyncer (store infm) of
           Inl err \<Rightarrow> (Some (StoreError err), infm)
         | Inr (syncer, st) \<Rightarrow>
             (case syncerSyncRaw st syncer storeKey of
                Inl err \<Rightarrow> (Some (StoreError err), infm\<lparr>store := st\<rparr>)
              | Inr st' \<Rightarrow>
                  (None, infm\<lparr>store := st',
                             syncers := AList.update syncerKey syncer (syncers infm)\<rparr>))))"

definition onSpecs ::
    "meshInformer \<Rightarrow> string \<Rightarrow> string \<Rightarrow> error option \<times> meshInformer" where
  "onSpecs infm storePrefix syncerKey =
     (if closed infm then (Some ErrClosed, infm)
      else if map_of (syncers infm) syncerKey \<noteq> None then (Some ErrAlreadyWatched, infm)
      else
        (case storeSyncer (store infm) of
           Inl err \<Rightarrow> (Some (StoreError err), infm)
         | Inr (syncer, st) \<Rightarrow>
             (case syncerSyncPrefix st syncer storePrefix of
                Inl err \<Rightarrow> (Some (StoreError err), infm\<lparr>store := st\<rparr>)
              | Inr st' \<Rightarrow>
                  (None, infm\<lparr>store := st',
                             syncers := AList.update syncerKey syncer (syncers infm)\<rparr>))))"

definition Close :: "meshInformer \<Rightarrow> meshInformer" where
  "Close infm =
     infm\<lparr>store := fold (\<lambda>(k, syncer) st. syncerClose st syncer) (syncers infm) (store infm),
         closed := True\<rparr>"

text \<open>
  \<open>NewInformer\<close>. The errors of the two internal registrations are dropped, as in the
  source.
\<close>

definition NewInformer ::
    "(string \<Rightarrow> Service option) \<Rightarrow> (string \<Rightarrow> Tenant option) \<Rightarrow> Storage \<Rightarrow> string
      \<Rightarrow> meshInformer" where
  "NewInformer unmarshalService unmarshalTenant st serviceName =
     (let infm = \<lparr>store = st, syncers = [], service = serviceName,
                 globalServices = Map.empty, service2Tenants = Map.empty, closed = False\<rparr>
      in if length serviceName = 0 then infm
         else
           (case storeGetPrefix (store infm) ServiceSpecPrefix of
              Inl err \<Rightarrow> infm
            | Inr services \<Rightarrow>
                (let inf1 = snd (buildServiceToTenantMap unmarshalService infm services);
                     inf2 = snd (onSpecs inf1 ServiceSpecPrefix ''informer-service'')
                 in (case storeGetPrefix (store inf2) (TenantSpecKey GlobalTenant) of
                       Inl err \<Rightarrow> inf2
                     | Inr tenants \<Rightarrow>
                         (let inf3 = snd (updateGlobalServices unmarshalTenant inf2 tenants)
                          in snd (onSpecs inf3 (TenantSpecKey GlobalTenant)
                                   ''informer-global-tenant''))))))"

subsection \<open>Single-key watches\<close>

definition serviceSpecSyncerKey :: "string \<Rightarrow> GJSONPath \<Rightarrow> string" where
  "serviceSpecSyncerKey serviceName gjsonPath =
     ''service-spec-'' @ serviceName @ ''-'' @ gjsonPath"

definition OnPartOfServiceSpec ::
    "meshInformer \<Rightarrow> string \<Rightarrow> GJSONPath \<Rightarrow> error option \<times> meshInformer" where
  "OnPartOfServiceSpec infm serviceName gjsonPath =
     onSpecPart infm (ServiceSpecKey serviceName)
       (serviceSpecSyncerKey serviceName gjsonPath) gjsonPath"

definition StopWatchServiceSpec :: "meshInformer \<Rightarrow> string \<Rightarrow> GJSONPath \<Rightarrow> meshInformer" where
  "StopWatchServiceSpec infm serviceName gjsonPath =
     stopSyncOneKey infm (serviceSpecSyncerKey serviceName gjsonPath)"

definition OnPartOfServiceInstanceSpec ::
    "meshInformer \<Rightarrow> string \<Rightarrow> string \<Rightarrow> GJSONPath \<Rightarrow> error option \<times> meshInformer" where
  "OnPartOfServiceInstanceSpec infm serviceName instanceID gjsonPath =
     onSpecPart infm (ServiceInstanceSpecKey serviceName instanceID)
       (''service-instance-spec-'' @ serviceName @ ''-'' @ instanceID @ ''-'' @ gjsonPath)
       gjsonPath"

definition OnPartOfServiceInstanceStatus ::
    "meshInformer \<Rightarrow> string \<Rightarrow> string \<Rightarrow> GJSONPath \<Rightarrow> error option \<times> meshInformer" where
  "OnPartOfServiceInstanceStatus infm serviceName instanceID gjsonPath =
     onSpecPart infm (ServiceInstanceStatusKey serviceName instanceID)
       (''service-instance-status-'' @ serviceName @ ''-'' @ instanceID @ ''-'' @ gjsonPath)
       gjsonPath"

definition OnPartOfTenantSpec ::
    "meshInformer \<Rightarrow> string \<Rightarrow> GJSONPath \<Rightarrow> error option \<times> meshInformer" where
  "OnPartOfTenantSpec infm tenant gjsonPath =
     onSpecPart infm (TenantSpecKey tenant) (''tenant-'' @ tenant) gjsonPath"

definition OnPartOfIngressSpec ::
    "meshInformer \<Rightarrow> string \<Rightarrow> GJSONPath \<Rightarrow> error option \<times> meshInformer" where
  "OnPartOfIngressSpec infm ingress gjsonPath =
     onSpecPart infm (IngressSpecKey ingress) (''ingress-'' @ ingress) gjsonPath"

text \<open>
  The closure \<open>specFunc\<close> that each \<open>OnPartOf*\<close> method wraps around the caller's
  callback \<open>fn\<close>; the five differ in the entity type only. \<open>zero\<close> is the freshly
  allocated entity; \<open>c\<close> is whatever state the caller's callback keeps, so that a
  callback may answer differently from one call to the next.
\<close>

definition specFunc ::
    "'e \<Rightarrow> (string \<Rightarrow> 'e option) \<Rightarrow> (Event \<Rightarrow> 'e \<Rightarrow> 'c \<Rightarrow> bool \<times> 'c)
      \<Rightarrow> Event \<Rightarrow> string \<Rightarrow> 'c \<Rightarrow> bool \<times> 'c" where
  "specFunc zero unmarshal fn event v c =
     (if EventType event \<noteq> EventDelete then
        (case unmarshal v of
           None \<Rightarrow> (True, c)
         | Some e \<Rightarrow> fn event e c)
      else fn event zero c)"

definition serviceSpecFunc ::
    "(string \<Rightarrow> Service option) \<Rightarrow> (Event \<Rightarrow> Service \<Rightarrow> 'c \<Rightarrow> bool \<times> 'c)
      \<Rightarrow> Event \<Rightarrow> string \<Rightarrow> 'c \<Rightarrow> bool \<times> 'c" where
  "serviceSpecFunc = specFunc zeroService"

definition serviceInstanceSpecFunc ::
    "(string \<Rightarrow> ServiceInstanceSpec option)
      \<Rightarrow> (Event \<Rightarrow> ServiceInstanceSpec \<Rightarrow> 'c \<Rightarrow> bool \<times> 'c)
      \<Rightarrow> Event \<Rightarrow> string \<Rightarrow> 'c \<Rightarrow> bool \<times> 'c" where
  "serviceInstanceSpecFunc = specFunc zeroServiceInstanceSpec"

definition serviceInstanceStatusFunc ::
    "(string \<Rightarrow> ServiceInstanceStatus option)
      \<Rightarrow> (Event \<Rightarrow> ServiceInstanceStatus \<Rightarrow> 'c \<Rightarrow> bool \<times> 'c)
      \<Rightarrow> Event \<Rightarrow> string \<Rightarrow> 'c \<Rightarrow> bool \<times> 'c" where
  "serviceInstanceStatusFunc = specFunc zeroServiceInstanceStatus"

definition tenantSpecFunc ::
    "(string \<Rightarrow> Tenant option) \<Rightarrow> (Event \<Rightarrow> Tenant \<Rightarrow> 'c \<Rightarrow> bool \<times> 'c)
      \<Rightarrow> Event \<Rightarrow> string \<Rightarrow> 'c \<Rightarrow> bool \<times> 'c" where
  "tenantSpecFunc = specFunc zeroTenant"

definition ingressSpecFunc ::
    "(string \<Rightarrow> Ingress option) \<Rightarrow> (Event \<Rightarrow> Ingress \<Rightarrow> 'c \<Rightarrow> bool \<times> 'c)
      \<Rightarrow> Event \<Rightarrow> string \<Rightarrow> 'c \<Rightarrow> bool \<times> 'c" where
  "ingressSpecFunc = specFunc zeroIngress"

text \<open>
  The body of the loop of \<open>sync\<close> for one channel element (\<open>None\<close> is the nil record),
  and the loop \<open>for kv := range ch\<close> itself. The list holds the elements the channel
  delivers until it is closed, in order; the loop has no exit of its own, so each of them
  is handled, also after \<open>stopSyncOneKey\<close> has run. When a channel stops delivering is
  the business of \<open>cluster.Syncer\<close>, which is not among the sources.
\<close>

definition syncBody ::
    "(Event \<Rightarrow> string \<Rightarrow> 'c \<Rightarrow> bool \<times> 'c) \<Rightarrow> string \<Rightarrow> KeyValue option
      \<Rightarrow> meshInformer \<times> 'c \<Rightarrow> meshInformer \<times> 'c" where
  "syncBody fn syncerKey kv state =
     (let (infm, c) = state;
          (event, v) =
            (case kv of
               None \<Rightarrow> (\<lparr>EventType = EventDelete, RawKV = None\<rparr>, [])
             | Some r \<Rightarrow> (\<lparr>EventType = EventUpdate, RawKV = Some r\<rparr>, Value r));
          (continue, c') = fn event v c
      in (if \<not> continue then stopSyncOneKey infm syncerKey else infm, c'))"

fun sync ::
    "(Event \<Rightarrow> string \<Rightarrow> 'c \<Rightarrow> bool \<times> 'c) \<Rightarrow> string \<Rightarrow> meshInformer \<times> 'c
      \<Rightarrow> KeyValue option list \<Rightarrow> meshInformer \<times> 'c" where
  "sync fn syncerKey state [] = state"
| "sync fn syncerKey state (kv # ch) = sync fn syncerKey (syncBody fn syncerKey kv state) ch"

subsection \<open>Prefix watches\<close>

text \<open>
  The loop of every prefix closure: decode each value, skip what does not decode, and
  store the entity under its key when the closure's condition holds.
\<close>

fun decodeInto ::
    "(string \<Rightarrow> 'e option) \<Rightarrow> ('e \<Rightarrow> bool) \<Rightarrow> (string \<rightharpoonup> 'e) \<Rightarrow> (string \<times> string) list
      \<Rightarrow> (string \<rightharpoonup> 'e)" where
  "decodeInto unmarshal keep m [] = m"
| "decodeInto unmarshal keep m ((k, v) # rest) =
     (case unmarshal v of
        None \<Rightarrow> decodeInto unmarshal keep m rest
      | Some e \<Rightarrow>
          if keep e then decodeInto unmarshal keep (m(k \<mapsto> e)) rest
          else decodeInto unmarshal keep m rest)"

definition allServiceSpecs ::
    "(string \<Rightarrow> Service option) \<Rightarrow> meshInformer \<Rightarrow> (string \<times> string) list
      \<Rightarrow> (string \<rightharpoonup> Service)" where
  "allServiceSpecs unmarshal infm snapshot =
     (let gs = globalServices infm;
          s2t = service2Tenants infm;
          tenant = (if length (service infm) > 0 \<and> \<not> gsLookup gs (service infm)
                    then s2tLookup s2t (service infm) else [])
      in decodeInto unmarshal
           (\<lambda>svc. length tenant = 0 \<or> gsLookup gs (svcName svc)
                    \<or> svcRegisterTenant svc = tenant)
           Map.empty snapshot)"

definition serviceInstanceSpecs ::
    "(string \<Rightarrow> ServiceInstanceSpec option) \<Rightarrow> meshInformer \<Rightarrow> (string \<times> string) list
      \<Rightarrow> (string \<rightharpoonup> ServiceInstanceSpec)" where
  "serviceInstanceSpecs unmarshal infm snapshot =
     (let gs = globalServices infm;
          s2t = service2Tenants infm;
          tenant = (if length (service infm) > 0 \<and> \<not> gsLookup gs (service infm)
                    then s2tLookup s2t (service infm) else [])
      in decodeInto unmarshal
           (\<lambda>instanceSpec. length tenant = 0 \<or> gsLookup gs (specServiceName instanceSpec)
                    \<or> s2tLookup s2t (specServiceName instanceSpec) = tenant)
           Map.empty snapshot)"

definition serviceInstanceStatuses ::
    "(string \<Rightarrow> ServiceInstanceStatus option) \<Rightarrow> meshInformer \<Rightarrow> (string \<times> string) list
      \<Rightarrow> (string \<rightharpoonup> ServiceInstanceStatus)" where
  "serviceInstanceStatuses unmarshal infm snapshot =
     (let gs = globalServices infm;
          s2t = service2Tenants infm;
          tenant = (if length (service infm) > 0 \<and> \<not> gsLookup gs (service infm)
                    then s2tLookup s2t (service infm) else [])
      in decodeInto unmarshal
           (\<lambda>instanceStatus. length tenant = 0
                    \<or> gsLookup gs (statusServiceName instanceStatus)
                    \<or> s2tLookup s2t (statusServiceName instanceStatus) = tenant)
           Map.empty snapshot)"

text \<open>
  The closures \<open>specsFunc\<close> of \<open>OnAllServiceSpecs\<close>, \<open>onServiceInstanceSpecs\<close>,
  \<open>onServiceInstanceStatuses\<close>, \<open>OnAllTenantSpecs\<close> and \<open>OnAllIngressSpecs\<close>: the
  caller's callback \<open>fn\<close> is applied to the map built from the snapshot.
\<close>

definition allServiceSpecsFunc ::
    "(string \<Rightarrow> Service option) \<Rightarrow> ((string \<rightharpoonup> Service) \<Rightarrow> 'c \<Rightarrow> bool \<times> 'c)
      \<Rightarrow> meshInformer \<Rightarrow> (string \<times> string) list \<Rightarrow> 'c \<Rightarrow> bool \<times> 'c" where
  "allServiceSpecsFunc unmarshal fn infm snapshot c =
     fn (allServiceSpecs unmarshal infm snapshot) c"

definition serviceInstanceSpecsFunc ::
    "(string \<Rightarrow> ServiceInstanceSpec option)
      \<Rightarrow> ((string \<rightharpoonup> ServiceInstanceSpec) \<Rightarrow> 'c \<Rightarrow> bool \<times> 'c)
      \<Rightarrow> meshInformer \<Rightarrow> (string \<times> string) list \<Rightarrow> 'c \<Rightarrow> bool \<times> 'c" where
  "serviceInstanceSpecsFunc unmarshal fn infm snapshot c =
     fn (serviceInstanceSpecs unmarshal infm snapshot) c"

definition serviceInstanceStatusesFunc ::
    "(string \<Rightarrow> ServiceInstanceStatus option)
      \<Rightarrow> ((string \<rightharpoonup> ServiceInstanceStatus) \<Rightarrow> 'c \<Rightarrow> bool \<times> 'c)
      \<Rightarrow> meshInformer \<Rightarrow> (string \<times> string) list \<Rightarrow> 'c \<Rightarrow> bool \<times> 'c" where
  "serviceInstanceStatusesFunc unmarshal fn infm snapshot c =
     fn (serviceInstanceStatuses unmarshal infm snapshot) c"

definition allTenantSpecsFunc ::
    "(string \<Rightarrow> Tenant option) \<Rightarrow> ((string \<rightharpoonup> Tenant) \<Rightarrow> 'c \<Rightarrow> bool \<times> 'c)
      \<Rightarrow> (string \<times> string) list \<Rightarrow> 'c \<Rightarrow> bool \<times> 'c" where
  "allTenantSpecsFunc unmarshal fn snapshot c =
     fn (decodeInto unmarshal (\<lambda>tenantSpec. True) Map.empty snapshot) c"

definition allIngressSpecsFunc ::
    "(string \<Rightarrow> Ingress option) \<Rightarrow> ((string \<rightharpoonup> Ingress) \<Rightarrow> 'c \<Rightarrow> bool \<times> 'c)
      \<Rightarrow> (string \<times> string) list \<Rightarrow> 'c \<Rightarrow> bool \<times> 'c" where
  "allIngressSpecsFunc unmarshal fn snapshot c =
     fn (decodeInto unmarshal (\<lambda>ingressSpec. True) Map.empty snapshot) c"

definition OnAllServiceSpecs :: "meshInformer \<Rightarrow> error option \<times> meshInformer" where
  "OnAllServiceSpecs infm = onSpecs infm ServiceSpecPrefix ''prefix-service''"

definition serviceInstanceSpecSyncerKey :: "string \<Rightarrow> string" where
  "serviceInstanceSpecSyncerKey serviceName = ''prefix-service-instance-spec-'' @ serviceName"

definition onServiceInstanceSpecs ::
    "meshInformer \<Rightarrow> string \<Rightarrow> string \<Rightarrow> error option \<times> meshInformer" where
  "onServiceInstanceSpecs infm storeKey syncerKey = onSpecs infm storeKey syncerKey"

definition OnServiceInstanceSpecs :: "meshInformer \<Rightarrow> string \<Rightarrow> error option \<times> meshInformer" where
  "OnServiceInstanceSpecs infm serviceName =
     onServiceInstanceSpecs infm (ServiceInstanceSpecPrefix serviceName)
       (serviceInstanceSpecSyncerKey serviceName)"

definition OnAllServiceInstanceSpecs :: "meshInformer \<Rightarrow> error option \<times> meshInformer" where
  "OnAllServiceInstanceSpecs infm =
     onServiceInstanceSpecs infm AllServiceInstanceSpecPrefix ''prefix-service-instance''"

definition StopWatchServiceInstanceSpec :: "meshInformer \<Rightarrow> string \<Rightarrow> meshInformer" where
  "StopWatchServiceInstanceSpec infm serviceName =
     stopSyncOneKey infm (serviceInstanceSpecSyncerKey serviceName)"

definition onServiceInstanceStatuses ::
    "meshInformer \<Rightarrow> string \<Rightarrow> string \<Rightarrow> error option \<times> meshInformer" where
  "onServiceInstanceStatuses infm storeKey syncerKey = onSpecs infm storeKey syncerKey"

definition OnServiceInstanceStatuses :: "meshInformer \<Rightarrow> string \<Rightarrow> error option \<times> meshInformer" where
  "OnServiceInstanceStatuses infm serviceName =
     onServiceInstanceStatuses infm (ServiceInstanceStatusPrefix serviceName)
       (''prefix-service-instance-status-'' @ serviceName)"

definition OnAllServiceInstanceStatuses :: "meshInformer \<Rightarrow> error option \<times> meshInformer" where
  "OnAllServiceInstanceStatuses infm =
     onServiceInstanceStatuses infm AllServiceInstanceStatusPrefix
       ''prefix-service-instance-status''"

definition OnAllTenantSpecs :: "meshInformer \<Rightarrow> error option \<times> meshInformer" where
  "OnAllTenantSpecs infm = onSpecs infm TenantPrefix ''prefix-tenant''"

definition OnAllIngressSpecs :: "meshInformer \<Rightarrow> error option \<times> meshInformer" where
  "OnAllIngressSpecs infm = onSpecs infm IngressPrefix ''prefix-ingress''"


section \<open>Example values\<close>

text \<open>
  A small mesh used to run the operations on concrete inputs: three services, the global
  tenant holding \<open>auth\<close>, and table codecs standing for the YAML codec on these values.
\<close>

definition emptyStore :: Storage where
  "emptyStore =
     \<lparr>kvs = [], revision = 0, fault = None, syncFault = None, nextSyncer = 0,
      channels = [], closedSyncers = {}\<rparr>"

definition orders :: Service where
  "orders = \<lparr>svcName = ''orders'', svcRegisterTenant = ''retail''\<rparr>"

definition auth :: Service where
  "auth = \<lparr>svcName = ''auth'', svcRegisterTenant = ''platform''\<rparr>"

definition billing :: Service where
  "billing = \<lparr>svcName = ''billing'', svcRegisterTenant = ''finance''\<rparr>"

definition exampleMarshalService :: "Service \<Rightarrow> string option" where
  "exampleMarshalService =
     map_of [(orders, ''name: orders''), (auth, ''name: auth''), (billing, ''name: billing'')]"

definition exampleUnmarshalService :: "string \<Rightarrow> Service option" where
  "exampleUnmarshalService =
     map_of [(''name: orders'', orders), (''name: auth'', auth), (''name: billing'', billing)]"

definition exampleUnmarshalSpec :: "string \<Rightarrow> ServiceInstanceSpec option" where
  "exampleUnmarshalSpec =
     map_of [(''name: orders'', \<lparr>specServiceName = ''orders'', specInstanceID = ''i1''\<rparr>),
             (''name: auth'', \<lparr>specServiceName = ''auth'', specInstanceID = ''i2''\<rparr>),
             (''name: billing'', \<lparr>specServiceName = ''billing'', specInstanceID = ''i3''\<rparr>)]"

definition exampleUnmarshalStatus :: "string \<Rightarrow> ServiceInstanceStatus option" where
  "exampleUnmarshalStatus =
     map_of [(''name: orders'', \<lparr>statusServiceName = ''orders'', statusInstanceID = ''i1''\<rparr>),
             (''name: auth'', \<lparr>statusServiceName = ''auth'', statusInstanceID = ''i2''\<rparr>),
             (''name: billing'', \<lparr>statusServiceName = ''billing'', statusInstanceID = ''i3''\<rparr>)]"

definition exampleUnmarshalTenant :: "string \<Rightarrow> Tenant option" where
  "exampleUnmarshalTenant =
     map_of [(''name: GLOBAL'', \<lparr>tenantName = ''GLOBAL'', tenantServices = [''auth'']\<rparr>),
             (''name: retail'', \<lparr>tenantName = ''retail'', tenantServices = [''orders'']\<rparr>)]"

definition exampleSnapshot :: "(string \<times> string) list" where
  "exampleSnapshot =
     [(''orders'', ''name: orders''), (''junk'', ''{''), (''auth'', ''name: auth''),
      (''billing'', ''name: billing'')]"

text \<open>An informer that nothing is registered on, serving no particular service.\<close>

definition freshInformer :: meshInformer where
  "freshInformer =
     \<lparr>store = emptyStore, syncers = [], service = [], globalServices = Map.empty,
      service2Tenants = Map.empty, closed = False\<rparr>"

text \<open>The informer of service \<open>orders\<close> (tenant \<open>retail\<close>), with \<open>auth\<close> global.\<close>

definition ordersInformer :: meshInformer where
  "ordersInformer =
     \<lparr>store = emptyStore, syncers = [], service = ''orders'',
      globalServices = [''auth'' \<mapsto> True],
      service2Tenants = [''orders'' \<mapsto> ''retail'', ''auth'' \<mapsto> ''platform'',
                         ''billing'' \<mapsto> ''finance''],
      closed = False\<rparr>"

text \<open>The informer of a service the service-to-tenant map does not know.\<close>

definition orphanInformer :: meshInformer where
  "orphanInformer =
     \<lparr>store = emptyStore, syncers = [], service = ''orders'',
      globalServices = [''auth'' \<mapsto> True],
      service2Tenants = [''billing'' \<mapsto> ''finance''],
      closed = False\<rparr>"

text \<open>
  A store holding one status record and one spec record of service \<open>orders\<close>, and the
  status decoder on their payloads.
\<close>

definition instanceStore :: Storage where
  "instanceStore =
     emptyStore\<lparr>kvs :=
       [\<lparr>Key = ''/service-instances/status/orders/i1'', Value = ''status of i1'',
         ModRevision = 1\<rparr>,
        \<lparr>Key = ''/service-instances/spec/orders/i2'', Value = ''spec of i2'',
         ModRevision = 2\<rparr>],
       revision := 2\<rparr>"

definition instanceUnmarshalStatus :: "string \<Rightarrow> ServiceInstanceStatus option" where
  "instanceUnmarshalStatus =
     map_of [(''status of i1'', \<lparr>statusServiceName = ''orders'', statusInstanceID = ''i1''\<rparr>),
             (''spec of i2'', \<lparr>statusServiceName = ''orders'', statusInstanceID = ''i2''\<rparr>)]"

text \<open>A store holding the three services, the global tenant and tenant \<open>retail\<close>.\<close>

definition meshStore :: Storage where
  "meshStore =
     emptyStore\<lparr>kvs :=
       [\<lparr>Key = ''/services/spec/orders'', Value = ''name: orders'', ModRevision = 1\<rparr>,
        \<lparr>Key = ''/services/spec/auth'', Value = ''name: auth'', ModRevision = 2\<rparr>,
        \<lparr>Key = ''/services/spec/billing'', Value = ''name: billing'', ModRevision = 3\<rparr>,
        \<lparr>Key = ''/tenants/GLOBAL'', Value = ''name: GLOBAL'', ModRevision = 4\<rparr>,
        \<lparr>Key = ''/tenants/retail'', Value = ''name: retail'', ModRevision = 5\<rparr>],
       revision := 5\<rparr>"

text \<open>A store with two services and, between them, a record that does not decode.\<close>

definition serviceStore :: Storage where
  "serviceStore =
     emptyStore\<lparr>kvs :=
       [\<lparr>Key = ''/services/spec/orders'', Value = ''name: orders'', ModRevision = 1\<rparr>,
        \<lparr>Key = ''/services/spec/junk'', Value = ''{'', ModRevision = 2\<rparr>,
        \<lparr>Key = ''/tenants/retail'', Value = ''name: retail'', ModRevision = 3\<rparr>,
        \<lparr>Key = ''/services/spec/billing'', Value = ''name: billing'', ModRevision = 4\<rparr>],
       revision := 4\<rparr>"

text \<open>
  A prefix-watch callback that keeps what the map it is given holds under the four keys of
  the example snapshot.
\<close>

definition readSnapshotKeys :: "(string \<rightharpoonup> 'e) \<Rightarrow> 'e option list \<Rightarrow> bool \<times> 'e option list" where
  "readSnapshotKeys m seen = (True, map m [''orders'', ''junk'', ''auth'', ''billing''])"

text \<open>
  A callback that records what it is called with and asks to stop at the first
  \<open>Delete\<close> event.
\<close>

definition recordUntilDelete ::
    "Event \<Rightarrow> Service \<Rightarrow> (Event \<times> Service) list \<Rightarrow> bool \<times> (Event \<times> Service) list" where
  "recordUntilDelete event svc seen = (EventType event \<noteq> EventDelete, seen @ [(event, svc)])"


section \<open>The repository: listing\<close>

lemma unmarshalEach_append:
  "unmarshalEach u acc found = acc @ List.map_filter u (map Value found)"
  by (induction found arbitrary: acc) (auto split: option.splits)

lemma listPrefix_decoded:
  "fault s = None \<Longrightarrow>
   listPrefix u s p =
     Inr (List.map_filter u (map Value (filter (\<lambda>kv. prefix p (Key kv)) (kvs s))))"
  by (simp add: listPrefix_def storeGetRawPrefix_def unmarshalEach_append)

text \<open>
  C1. \<open>ListServiceInstanceStatuses(serviceName)\<close> is claimed to scan the status prefix
  of the service. On a store holding the status record of instance \<open>i1\<close> and the spec
  record of instance \<open>i2\<close> of service \<open>orders\<close>, the status prefix holds the record of
  \<open>i1\<close>, yet the function returns what the spec record of \<open>i2\<close> decodes to and not the
  status of \<open>i1\<close>: it scans \<open>ServiceInstanceSpecPrefix\<close>. The sibling
  \<open>ListAllServiceInstanceStatuses\<close> does scan the status prefix.
\<close>

theorem ListServiceInstanceStatuses_reads_spec_prefix:
  "storeGetRawPrefix instanceStore (ServiceInstanceStatusPrefix ''orders'') =
     Inr [\<lparr>Key = ''/service-instances/status/orders/i1'', Value = ''status of i1'',
           ModRevision = 1\<rparr>]
   \<and> ListServiceInstanceStatuses instanceUnmarshalStatus instanceStore ''orders'' =
     Inr [\<lparr>statusServiceName = ''orders'', statusInstanceID = ''i2''\<rparr>]
   \<and> ListAllServiceInstanceStatuses instanceUnmarshalStatus instanceStore =
     Inr [\<lparr>statusServiceName = ''orders'', statusInstanceID = ''i1''\<rparr>]"
  by (simp add: storeGetRawPrefix_def instanceStore_def emptyStore_def
      ServiceInstanceStatusPrefix_def ServiceInstanceSpecPrefix_def
      AllServiceInstanceStatusPrefix_def ListServiceInstanceStatuses_def
      ListAllServiceInstanceStatuses_def listServiceInstanceStatuses_def listPrefix_def
      instanceUnmarshalStatus_def)

text \<open>
  C9. Listing over a prefix skips a record whose payload does not decode and goes on:
  whenever the store answers the scan, the result is \<open>Inr\<close> of exactly the entities
  decoded from the scanned records that decode, in scan order. \<open>listPrefix\<close> is the
  body shared by all list operations; the named ones follow, each with the prefix it
  scans (for \<open>ListServiceInstanceStatuses\<close> that is the prefix of C1).
\<close>

theorem list_skips_undecodable:
  assumes "fault s = None"
  shows "listPrefix u s p =
           Inr (List.map_filter u (map Value (filter (\<lambda>kv. prefix p (Key kv)) (kvs s))))
       \<and> ListServiceSpecs uS s =
           Inr (List.map_filter uS
                 (map Value (filter (\<lambda>kv. prefix ServiceSpecPrefix (Key kv)) (kvs s))))
       \<and> ListTenantSpecs uT s =
           Inr (List.map_filter uT
                 (map Value (filter (\<lambda>kv. prefix TenantPrefix (Key kv)) (kvs s))))
       \<and> ListIngressSpecs uI s =
           Inr (List.map_filter uI
                 (map Value (filter (\<lambda>kv. prefix IngressPrefix (Key kv)) (kvs s))))
       \<and> ListCustomResourceKinds uK s =
           Inr (List.map_filter uK
                 (map Value (filter (\<lambda>kv. prefix CustomResourceKindPrefix (Key kv)) (kvs s))))
       \<and> ListCustomResources uR s kind =
           Inr (List.map_filter uR
                 (map Value
                   (filter (\<lambda>kv. prefix (if kind \<noteq> [] then CustomResourcePrefix kind
                                           else AllCustomResourcePrefix) (Key kv))
                     (kvs s))))
       \<and> ListAllServiceInstanceSpecs uP s =
           Inr (List.map_filter uP
                 (map Value (filter (\<lambda>kv. prefix AllServiceInstanceSpecPrefix (Key kv)) (kvs s))))
       \<and> ListServiceInstanceSpecs uP s serviceName =
           Inr (List.map_filter uP
                 (map Value
                   (filter (\<lambda>kv. prefix (ServiceInstanceSpecPrefix serviceName) (Key kv))
                     (kvs s))))
       \<and> ListAllServiceInstanceStatuses uQ s =
           Inr (List.map_filter uQ
                 (map Value
                   (filter (\<lambda>kv. prefix AllServiceInstanceStatusPrefix (Key kv)) (kvs s))))
       \<and> ListServiceInstanceStatuses uQ s serviceName =
           Inr (List.map_filter uQ
                 (map Value
                   (filter (\<lambda>kv. prefix (ServiceInstanceSpecPrefix serviceName) (Key kv))
                     (kvs s))))"
  using assms
  by (simp add: ListServiceSpecs_def ListTenantSpecs_def ListIngressSpecs_def
      ListCustomResourceKinds_def ListCustomResources_def ListAllServiceInstanceSpecs_def
      ListServiceInstanceSpecs_def listServiceInstanceSpecs_def
      ListAllServiceInstanceStatuses_def ListServiceInstanceStatuses_def
      listServiceInstanceStatuses_def listPrefix_decoded)

theorem list_skips_undecodable_witness:
  "fault serviceStore = None
   \<and> exampleUnmarshalService ''{'' = None
   \<and> ListServiceSpecs exampleUnmarshalService serviceStore = Inr [orders, billing]"
proof -
  have healthy: "fault serviceStore = None"
    by (simp add: serviceStore_def emptyStore_def)
  note listed = list_skips_undecodable [OF healthy, THEN conjunct2, THEN conjunct1,
      of exampleUnmarshalService]
  have "ListServiceSpecs exampleUnmarshalService serviceStore = Inr [orders, billing]"
    unfolding listed
    by (simp add: serviceStore_def emptyStore_def ServiceSpecPrefix_def
        exampleUnmarshalService_def)
  with healthy show ?thesis
    by (simp add: exampleUnmarshalService_def)
qed

section \<open>The repository: put, get, delete\<close>

lemma find_putKV: "find (\<lambda>kv. Key kv = Key new) (putKV new found) = Some new"
  by (induction found) auto

lemma find_after_delete:
  "find (\<lambda>kv. Key kv = k) (filter (\<lambda>kv. Key kv \<noteq> k) found) = None"
  by (induction found) auto

lemma get_after_put:
  assumes "marshal v = Some buff" and "unmarshal buff = Some v"
    and "PutServiceSpec marshal s v = Inr s'"
  shows "GetServiceSpec unmarshal s' (svcName v) = Inr (Some v)"
  using assms
    find_putKV [of "\<lparr>Key = ServiceSpecKey (svcName v), Value = buff,
                      ModRevision = revision s + 1\<rparr>" "kvs s"]
  by (auto simp: PutServiceSpec_def GetServiceSpec_def GetServiceSpecWithInfo_def
      storePut_def storeGetRaw_def split: option.splits sum.splits)

lemma get_after_delete:
  "DeleteServiceSpec s n = Inr s' \<Longrightarrow> GetServiceSpec unmarshal s' n = Inr None"
  by (auto simp: DeleteServiceSpec_def GetServiceSpec_def GetServiceSpecWithInfo_def
      storeDelete_def storeGetRaw_def find_after_delete split: option.splits sum.splits)

text \<open>
  C6. Put-get consistency on the key-value store: for a service \<open>v\<close> whose serialization
  decodes back to \<open>v\<close>, once \<open>PutServiceSpec v\<close> has returned, \<open>GetServiceSpec\<close> of its
  name returns \<open>v\<close>; once \<open>DeleteServiceSpec name\<close> has returned, \<open>GetServiceSpec name\<close>
  returns absent.
\<close>

theorem put_get_delete_consistency:
  "(marshal v = Some buff \<and> unmarshal buff = Some v \<and> PutServiceSpec marshal s v = Inr s'
      \<longrightarrow> GetServiceSpec unmarshal s' (svcName v) = Inr (Some v))
   \<and> (DeleteServiceSpec s name = Inr s'' \<longrightarrow> GetServiceSpec unmarshal s'' name = Inr None)"
  using get_after_put [of marshal v buff unmarshal s s']
    get_after_delete [of s name s'' unmarshal]
  by blast

theorem put_get_delete_consistency_witness:
  "exampleMarshalService billing = Some ''name: billing''
   \<and> exampleUnmarshalService ''name: billing'' = Some billing
   \<and> PutServiceSpec exampleMarshalService serviceStore billing =
       Inr (serviceStore\<lparr>kvs :=
         [\<lparr>Key = ''/services/spec/orders'', Value = ''name: orders'', ModRevision = 1\<rparr>,
          \<lparr>Key = ''/services/spec/junk'', Value = ''{'', ModRevision = 2\<rparr>,
          \<lparr>Key = ''/tenants/retail'', Value = ''name: retail'', ModRevision = 3\<rparr>,
          \<lparr>Key = ''/services/spec/billing'', Value = ''name: billing'', ModRevision = 5\<rparr>],
         revision := 5\<rparr>)
   \<and> GetServiceSpec exampleUnmarshalService
         (serviceStore\<lparr>kvs :=
           [\<lparr>Key = ''/services/spec/orders'', Value = ''name: orders'', ModRevision = 1\<rparr>,
            \<lparr>Key = ''/services/spec/junk'', Value = ''{'', ModRevision = 2\<rparr>,
            \<lparr>Key = ''/tenants/retail'', Value = ''name: retail'', ModRevision = 3\<rparr>,
            \<lparr>Key = ''/services/spec/billing'', Value = ''name: billing'', ModRevision = 5\<rparr>],
           revision := 5\<rparr>) (svcName billing) = Inr (Some billing)
   \<and> DeleteServiceSpec serviceStore ''orders'' =
       Inr (serviceStore\<lparr>kvs :=
         [\<lparr>Key = ''/services/spec/junk'', Value = ''{'', ModRevision = 2\<rparr>,
          \<lparr>Key = ''/tenants/retail'', Value = ''name: retail'', ModRevision = 3\<rparr>,
          \<lparr>Key = ''/services/spec/billing'', Value = ''name: billing'', ModRevision = 4\<rparr>],
         revision := 5\<rparr>)
   \<and> GetServiceSpec exampleUnmarshalService
         (serviceStore\<lparr>kvs :=
           [\<lparr>Key = ''/services/spec/junk'', Value = ''{'', ModRevision = 2\<rparr>,
            \<lparr>Key = ''/tenants/retail'', Value = ''name: retail'', ModRevision = 3\<rparr>,
            \<lparr>Key = ''/services/spec/billing'', Value = ''name: billing'', ModRevision = 4\<rparr>],
           revision := 5\<rparr>) ''orders'' = Inr None"
proof -
  have put: "PutServiceSpec exampleMarshalService serviceStore billing =
       Inr (serviceStore\<lparr>kvs :=
         [\<lparr>Key = ''/services/spec/orders'', Value = ''name: orders'', ModRevision = 1\<rparr>,
          \<lparr>Key = ''/services/spec/junk'', Value = ''{'', ModRevision = 2\<rparr>,
          \<lparr>Key = ''/tenants/retail'', Value = ''name: retail'', ModRevision = 3\<rparr>,
          \<lparr>Key = ''/services/spec/billing'', Value = ''name: billing'', ModRevision = 5\<rparr>],
         revision := 5\<rparr>)"
    by (simp add: PutServiceSpec_def exampleMarshalService_def storePut_def serviceStore_def
        emptyStore_def ServiceSpecKey_def billing_def orders_def auth_def)
  have del: "DeleteServiceSpec serviceStore ''orders'' =
       Inr (serviceStore\<lparr>kvs :=
         [\<lparr>Key = ''/services/spec/junk'', Value = ''{'', ModRevision = 2\<rparr>,
          \<lparr>Key = ''/tenants/retail'', Value = ''name: retail'', ModRevision = 3\<rparr>,
          \<lparr>Key = ''/services/spec/billing'', Value = ''name: billing'', ModRevision = 4\<rparr>],
         revision := 5\<rparr>)"
    by (simp add: DeleteServiceSpec_def storeDelete_def serviceStore_def emptyStore_def
        ServiceSpecKey_def)
  have enc: "exampleMarshalService billing = Some ''name: billing''"
    by (simp add: exampleMarshalService_def billing_def orders_def auth_def)
  have dec: "exampleUnmarshalService ''name: billing'' = Some billing"
    by (simp add: exampleUnmarshalService_def)
  from put_get_delete_consistency [of exampleMarshalService billing "''name: billing''"
      exampleUnmarshalService serviceStore _ "''orders''" _] enc dec put del
  show ?thesis by simp
qed

section \<open>The informer: construction\<close>

text \<open>
  With an empty service name the constructor returns at once; for service \<open>orders\<close> on
  the example store it loads both indices and starts the two internal prefix watches.
  The indices are those of \<open>ordersInformer\<close>.
\<close>

lemma NewInformer_without_service:
  "NewInformer uS uT st [] = freshInformer\<lparr>store := st\<rparr>"
  by (simp add: NewInformer_def freshInformer_def)

lemma NewInformer_of_orders:
  "NewInformer exampleUnmarshalService exampleUnmarshalTenant meshStore ''orders'' =
     ordersInformer
       \<lparr>store := meshStore
          \<lparr>nextSyncer := 2,
           channels := [(1, True, ''/tenants/GLOBAL''), (0, True, ''/services/spec/'')]\<rparr>,
        syncers := [(''informer-service'', 0), (''informer-global-tenant'', 1)]\<rparr>"
  by (simp add: NewInformer_def meshStore_def emptyStore_def ordersInformer_def
      storeGetPrefix_def storeGetRawPrefix_def ServiceSpecPrefix_def TenantSpecKey_def
      GlobalTenant_def buildServiceToTenantMap_def updateGlobalServices_def onSpecs_def
      storeSyncer_def syncerSyncPrefix_def exampleUnmarshalService_def
      exampleUnmarshalTenant_def orders_def auth_def billing_def Let_def)

section \<open>The informer: tenant indices\<close>

lemma findGlobalTenant_None:
  "findGlobalTenant u snapshot = None \<longleftrightarrow>
   (\<forall>(k, v) \<in> set snapshot. \<forall>t. u v = Some t \<longrightarrow> tenantName t \<noteq> GlobalTenant)"
  by (induction snapshot) (auto split: option.splits if_splits)

text \<open>
  C2 (as amended). If no record of the snapshot decodes to a tenant named \<open>GLOBAL\<close>,
  \<open>updateGlobalServices\<close> returns without touching the informer: the global-services
  set stays what it was, so it is empty afterwards when it was empty before.
\<close>

theorem global_services_kept_without_global_tenant:
  assumes "\<forall>(k, v) \<in> set snapshot. \<forall>t. unmarshal v = Some t \<longrightarrow> tenantName t \<noteq> GlobalTenant"
  shows "updateGlobalServices unmarshal infm snapshot = (True, infm)
       \<and> (globalServices infm = Map.empty \<longrightarrow>
            globalServices (snd (updateGlobalServices unmarshal infm snapshot)) = Map.empty)"
  using assms findGlobalTenant_None [of unmarshal snapshot]
  by (simp add: updateGlobalServices_def)

theorem global_services_kept_without_global_tenant_witness:
  "exampleUnmarshalTenant ''name: retail'' =
     Some \<lparr>tenantName = ''retail'', tenantServices = [''orders'']\<rparr>
   \<and> ''retail'' \<noteq> GlobalTenant
   \<and> exampleUnmarshalTenant ''{'' = None
   \<and> updateGlobalServices exampleUnmarshalTenant ordersInformer
        [(''/tenants/retail'', ''name: retail''), (''/tenants/junk'', ''{'')] =
       (True, ordersInformer)"
proof -
  have dec: "exampleUnmarshalTenant ''name: retail'' =
      Some \<lparr>tenantName = ''retail'', tenantServices = [''orders'']\<rparr>"
    "exampleUnmarshalTenant ''{'' = None"
    by (simp_all add: exampleUnmarshalTenant_def)
  have other: "''retail'' \<noteq> GlobalTenant"
    by (simp add: GlobalTenant_def)
  have "\<forall>(k, v) \<in> set [(''/tenants/retail'', ''name: retail''), (''/tenants/junk'', ''{'')].
          \<forall>t. exampleUnmarshalTenant v = Some t \<longrightarrow> tenantName t \<noteq> GlobalTenant"
    using dec other by auto
  from global_services_kept_without_global_tenant [OF this, of ordersInformer] dec other
  show ?thesis by simp
qed

theorem global_services_not_emptied:
  "globalServices ordersInformer ''auth'' = Some True
   \<and> globalServices (snd (updateGlobalServices exampleUnmarshalTenant ordersInformer []))
        ''auth'' = Some True
   \<and> exampleUnmarshalTenant ''name: retail'' =
       Some \<lparr>tenantName = ''retail'', tenantServices = [''orders'']\<rparr>
   \<and> ''retail'' \<noteq> GlobalTenant
   \<and> globalServices
        (snd (updateGlobalServices exampleUnmarshalTenant ordersInformer
               [(''/tenants/retail'', ''name: retail'')]))
        ''auth'' = Some True"
  by (simp add: updateGlobalServices_def exampleUnmarshalTenant_def ordersInformer_def
      GlobalTenant_def)

section \<open>The informer: the tenant filter of prefix watches\<close>

lemma decodeInto_lookup:
  "distinct (map fst snapshot) \<Longrightarrow>
   decodeInto u keep m snapshot k =
     (case map_of snapshot k of
        None \<Rightarrow> m k
      | Some v \<Rightarrow> (case u v of None \<Rightarrow> m k | Some e \<Rightarrow> if keep e then Some e else m k))"
proof (induction snapshot arbitrary: m)
  case Nil
  then show ?case by simp
next
  case (Cons a rest)
  obtain k' v' where a: "a = (k', v')" by (cases a)
  from Cons.prems a have d: "distinct (map fst rest)" and nin: "k' \<notin> fst ` set rest"
    by auto
  from nin have none: "map_of rest k' = None"
    by (simp add: map_of_eq_None_iff)
  show ?case
  proof (cases "k = k'")
    case True
    then show ?thesis
      using a none Cons.IH [OF d] by (simp split: option.splits)
  next
    case False
    then show ?thesis
      using a Cons.IH [OF d] by (simp split: option.splits)
  qed
qed

lemma decodeInto_member:
  assumes "distinct (map fst snapshot)" and "(k, v) \<in> set snapshot" and "u v = Some e"
  shows "decodeInto u keep Map.empty snapshot k = (if keep e then Some e else None)"
  using assms by (simp add: decodeInto_lookup)


lemma example_decodes:
  "exampleUnmarshalService ''name: auth'' = Some auth"
  "exampleUnmarshalService ''name: billing'' = Some billing"
  "exampleUnmarshalSpec ''name: auth'' = Some \<lparr>specServiceName = ''auth'', specInstanceID = ''i2''\<rparr>"
  "exampleUnmarshalSpec ''name: billing'' =
     Some \<lparr>specServiceName = ''billing'', specInstanceID = ''i3''\<rparr>"
  "exampleUnmarshalStatus ''name: auth'' =
     Some \<lparr>statusServiceName = ''auth'', statusInstanceID = ''i2''\<rparr>"
  "exampleUnmarshalStatus ''name: billing'' =
     Some \<lparr>statusServiceName = ''billing'', statusInstanceID = ''i3''\<rparr>"
  by (simp_all add: exampleUnmarshalService_def exampleUnmarshalSpec_def
      exampleUnmarshalStatus_def)

lemma example_snapshot:
  "distinct (map fst exampleSnapshot)"
  "(''auth'', ''name: auth'') \<in> set exampleSnapshot"
  "(''billing'', ''name: billing'') \<in> set exampleSnapshot"
  by (simp_all add: exampleSnapshot_def)



text \<open>
  C10. If \<open>selfService\<close> is non-empty, not in \<open>globalServices\<close>, and either absent from
  the service-to-tenant map or mapped to the empty tenant, the filter lets everything
  through. The closure of a Services, ServiceInstanceSpecs or ServiceInstanceStatuses
  prefix watch calls the callback \<open>fn\<close> with the map the unfiltered decoding of the
  snapshot builds, and answers what \<open>fn\<close> answers; in that map every decodable entry of
  the snapshot (distinct keys) stands under its key.
\<close>

theorem tenant_filter_passes_all_without_tenant:
  assumes "service infm \<noteq> []"
    and "\<not> gsLookup (globalServices infm) (service infm)"
    and "service2Tenants infm (service infm) = None
         \<or> service2Tenants infm (service infm) = Some []"
  shows "allServiceSpecs uS infm snapshot = decodeInto uS (\<lambda>svc. True) Map.empty snapshot
       \<and> serviceInstanceSpecs uP infm snapshot = decodeInto uP (\<lambda>e. True) Map.empty snapshot
       \<and> serviceInstanceStatuses uQ infm snapshot = decodeInto uQ (\<lambda>e. True) Map.empty snapshot
       \<and> (distinct (map fst snapshot) \<and> (k, v) \<in> set snapshot \<longrightarrow>
            (uS v = Some svc \<longrightarrow> allServiceSpecs uS infm snapshot k = Some svc)
          \<and> (uP v = Some instanceSpec \<longrightarrow>
               serviceInstanceSpecs uP infm snapshot k = Some instanceSpec)
          \<and> (uQ v = Some instanceStatus \<longrightarrow>
               serviceInstanceStatuses uQ infm snapshot k = Some instanceStatus))
       \<and> allServiceSpecsFunc uS fnS infm snapshot cS =
           fnS (decodeInto uS (\<lambda>svc. True) Map.empty snapshot) cS
       \<and> serviceInstanceSpecsFunc uP fnP infm snapshot cP =
           fnP (decodeInto uP (\<lambda>e. True) Map.empty snapshot) cP
       \<and> serviceInstanceStatusesFunc uQ fnQ infm snapshot cQ =
           fnQ (decodeInto uQ (\<lambda>e. True) Map.empty snapshot) cQ
       \<and> (distinct (map fst snapshot) \<and> (k, v) \<in> set snapshot \<longrightarrow>
            (uS v = Some svc \<longrightarrow>
               decodeInto uS (\<lambda>svc. True) Map.empty snapshot k = Some svc)
          \<and> (uP v = Some instanceSpec \<longrightarrow>
               decodeInto uP (\<lambda>e. True) Map.empty snapshot k = Some instanceSpec)
          \<and> (uQ v = Some instanceStatus \<longrightarrow>
               decodeInto uQ (\<lambda>e. True) Map.empty snapshot k = Some instanceStatus))"
proof -
  from assms(3) have "s2tLookup (service2Tenants infm) (service infm) = []"
    by (auto simp: s2tLookup_def)
  with assms(1,2) show ?thesis
    by (auto simp: allServiceSpecs_def serviceInstanceSpecs_def serviceInstanceStatuses_def
        allServiceSpecsFunc_def serviceInstanceSpecsFunc_def serviceInstanceStatusesFunc_def
        decodeInto_member)
qed

theorem tenant_filter_passes_all_without_tenant_witness:
  "service2Tenants orphanInformer (service orphanInformer) = None
   \<and> allServiceSpecs exampleUnmarshalService orphanInformer exampleSnapshot ''billing'' =
       Some billing
   \<and> serviceInstanceSpecs exampleUnmarshalSpec orphanInformer exampleSnapshot ''billing'' =
       Some \<lparr>specServiceName = ''billing'', specInstanceID = ''i3''\<rparr>
   \<and> serviceInstanceStatuses exampleUnmarshalStatus orphanInformer exampleSnapshot ''billing'' =
       Some \<lparr>statusServiceName = ''billing'', statusInstanceID = ''i3''\<rparr>
   \<and> service2Tenants (orphanInformer\<lparr>service2Tenants := [''orders'' \<mapsto> []]\<rparr>)
        (service orphanInformer) = Some []
   \<and> allServiceSpecs exampleUnmarshalService
        (orphanInformer\<lparr>service2Tenants := [''orders'' \<mapsto> []]\<rparr>) exampleSnapshot ''billing'' =
       Some billing
   \<and> allServiceSpecsFunc exampleUnmarshalService readSnapshotKeys orphanInformer
        exampleSnapshot [] =
       (True, [Some orders, None, Some auth, Some billing])
   \<and> serviceInstanceSpecsFunc exampleUnmarshalSpec readSnapshotKeys orphanInformer
        exampleSnapshot [] =
       (True, [Some \<lparr>specServiceName = ''orders'', specInstanceID = ''i1''\<rparr>, None,
               Some \<lparr>specServiceName = ''auth'', specInstanceID = ''i2''\<rparr>,
               Some \<lparr>specServiceName = ''billing'', specInstanceID = ''i3''\<rparr>])
   \<and> serviceInstanceStatusesFunc exampleUnmarshalStatus readSnapshotKeys orphanInformer
        exampleSnapshot [] =
       (True, [Some \<lparr>statusServiceName = ''orders'', statusInstanceID = ''i1''\<rparr>, None,
               Some \<lparr>statusServiceName = ''auth'', statusInstanceID = ''i2''\<rparr>,
               Some \<lparr>statusServiceName = ''billing'', statusInstanceID = ''i3''\<rparr>])"
proof -
  have self: "service orphanInformer \<noteq> []"
    "\<not> gsLookup (globalServices orphanInformer) (service orphanInformer)"
    and absent: "service2Tenants orphanInformer (service orphanInformer) = None"
    by (simp_all add: orphanInformer_def gsLookup_def)
  let ?untenanted = "orphanInformer\<lparr>service2Tenants := [''orders'' \<mapsto> []]\<rparr>"
  have self': "service ?untenanted \<noteq> []"
    "\<not> gsLookup (globalServices ?untenanted) (service ?untenanted)"
    and empty: "service2Tenants ?untenanted (service ?untenanted) = Some []"
    by (simp_all add: orphanInformer_def gsLookup_def)
  note whole = tenant_filter_passes_all_without_tenant [OF self disjI1 [OF absent],
      where uS = exampleUnmarshalService and snapshot = exampleSnapshot
        and uP = exampleUnmarshalSpec and uQ = exampleUnmarshalStatus
        and k = "''billing''" and v = "''name: billing''" and svc = billing
        and fnS = readSnapshotKeys and fnP = readSnapshotKeys and fnQ = readSnapshotKeys
        and cS = "[]" and cP = "[]" and cQ = "[]"]
  note a = whole [THEN conjunct2, THEN conjunct2, THEN conjunct2, THEN conjunct1]
  note b = tenant_filter_passes_all_without_tenant [OF self' disjI2 [OF empty],
      of exampleUnmarshalService exampleSnapshot exampleUnmarshalSpec exampleUnmarshalStatus
        "''billing''" "''name: billing''" billing,
      THEN conjunct2, THEN conjunct2, THEN conjunct2, THEN conjunct1]
  note f = whole [THEN conjunct2, THEN conjunct2, THEN conjunct2, THEN conjunct2]
  have calls:
    "allServiceSpecsFunc exampleUnmarshalService readSnapshotKeys orphanInformer
       exampleSnapshot [] = (True, [Some orders, None, Some auth, Some billing])"
    "serviceInstanceSpecsFunc exampleUnmarshalSpec readSnapshotKeys orphanInformer
       exampleSnapshot [] =
     (True, [Some \<lparr>specServiceName = ''orders'', specInstanceID = ''i1''\<rparr>, None,
             Some \<lparr>specServiceName = ''auth'', specInstanceID = ''i2''\<rparr>,
             Some \<lparr>specServiceName = ''billing'', specInstanceID = ''i3''\<rparr>])"
    "serviceInstanceStatusesFunc exampleUnmarshalStatus readSnapshotKeys orphanInformer
       exampleSnapshot [] =
     (True, [Some \<lparr>statusServiceName = ''orders'', statusInstanceID = ''i1''\<rparr>, None,
             Some \<lparr>statusServiceName = ''auth'', statusInstanceID = ''i2''\<rparr>,
             Some \<lparr>statusServiceName = ''billing'', statusInstanceID = ''i3''\<rparr>])"
    unfolding f [THEN conjunct1] f [THEN conjunct2, THEN conjunct1]
      f [THEN conjunct2, THEN conjunct2, THEN conjunct1]
    by (simp_all add: readSnapshotKeys_def exampleSnapshot_def exampleUnmarshalService_def
        exampleUnmarshalSpec_def exampleUnmarshalStatus_def)
  from a b absent empty calls show ?thesis
    using example_snapshot example_decodes by simp
qed

section \<open>The informer: registration and teardown\<close>

lemma onSpecPart_closed:
  "closed infm \<Longrightarrow> onSpecPart infm storeKey syncerKey p = (Some ErrClosed, infm)"
  by (simp add: onSpecPart_def)

lemma onSpecs_closed:
  "closed infm \<Longrightarrow> onSpecs infm storePrefix syncerKey = (Some ErrClosed, infm)"
  by (simp add: onSpecs_def)

lemma onSpecPart_watched:
  "\<not> closed infm \<Longrightarrow> map_of (syncers infm) syncerKey = Some syncer \<Longrightarrow>
   onSpecPart infm storeKey syncerKey p = (Some ErrAlreadyWatched, infm)"
  by (simp add: onSpecPart_def)

lemma onSpecs_watched:
  "\<not> closed infm \<Longrightarrow> map_of (syncers infm) syncerKey = Some syncer \<Longrightarrow>
   onSpecs infm storePrefix syncerKey = (Some ErrAlreadyWatched, infm)"
  by (simp add: onSpecs_def)

lemma onSpecPart_fresh:
  assumes "\<not> closed infm" and "map_of (syncers infm) syncerKey = None"
    and "fault (store infm) = None" and "syncFault (store infm) = None"
  shows "onSpecPart infm storeKey syncerKey p =
     (None,
      infm\<lparr>store := (store infm)
              \<lparr>nextSyncer := Suc (nextSyncer (store infm)),
               channels := (nextSyncer (store infm), False, storeKey) # channels (store infm)\<rparr>,
           syncers := AList.update syncerKey (nextSyncer (store infm)) (syncers infm)\<rparr>)"
  using assms by (simp add: onSpecPart_def storeSyncer_def syncerSyncRaw_def)

lemma onSpecPart_accepted:
  assumes "fst (onSpecPart infm storeKey syncerKey p) = None"
  shows "\<not> closed (snd (onSpecPart infm storeKey syncerKey p))
       \<and> map_of (syncers (snd (onSpecPart infm storeKey syncerKey p))) syncerKey \<noteq> None"
  using assms
  by (auto simp: onSpecPart_def update_conv' split: if_splits sum.splits prod.splits)

lemma onSpecPart_same_key_again:
  assumes "fst (onSpecPart infm storeKey syncerKey p1) = None"
  shows "onSpecPart (snd (onSpecPart infm storeKey syncerKey p1)) storeKey syncerKey p2 =
           (Some ErrAlreadyWatched, snd (onSpecPart infm storeKey syncerKey p1))"
  using onSpecPart_accepted [OF assms] by (auto simp: onSpecPart_watched)

lemma onSpecPart_twice:
  assumes "k1 \<noteq> k2" and "\<not> closed infm"
    and "fault (store infm) = None" and "syncFault (store infm) = None"
    and "map_of (syncers infm) k1 = None" and "map_of (syncers infm) k2 = None"
  shows "\<exists>i1 i2. onSpecPart infm storeKey k1 p1 = (None, i1)
           \<and> onSpecPart i1 storeKey k2 p2 = (None, i2)
           \<and> map_of (syncers i2) k1 = Some (nextSyncer (store infm))
           \<and> map_of (syncers i2) k2 = Some (Suc (nextSyncer (store infm)))"
proof -
  let ?i1 = "infm\<lparr>store := (store infm)
              \<lparr>nextSyncer := Suc (nextSyncer (store infm)),
               channels := (nextSyncer (store infm), False, storeKey) # channels (store infm)\<rparr>,
           syncers := AList.update k1 (nextSyncer (store infm)) (syncers infm)\<rparr>"
  have r1: "onSpecPart infm storeKey k1 p1 = (None, ?i1)"
    using assms by (simp add: onSpecPart_fresh)
  have pre: "\<not> closed ?i1" "map_of (syncers ?i1) k2 = None"
    "fault (store ?i1) = None" "syncFault (store ?i1) = None"
    using assms by (simp_all add: update_conv')
  show ?thesis
    unfolding r1 using assms(1) by (simp add: onSpecPart_fresh [OF pre] update_conv')
qed

text \<open>
  C3 (as amended). For the single-key watches of Service, ServiceInstanceSpec and
  ServiceInstanceStatus the syncerKey is built from the entity id and the selector path:
  two registrations on one id with distinct selectors have distinct syncerKeys, and on an
  open informer with a responding store, where neither key is registered yet, both are
  accepted and end up registered with two different syncers. For Tenant and Ingress the
  syncerKey is built from the name alone: once a watch on a name is accepted, a second
  registration on that name is rejected with \<open>AlreadyWatched\<close> whatever its selector.
\<close>

theorem syncerKey_selector_of_single_key_watches:
  assumes "p1 \<noteq> p2" and "\<not> closed infm"
    and "fault (store infm) = None" and "syncFault (store infm) = None"
  shows "serviceSpecSyncerKey n p1 \<noteq> serviceSpecSyncerKey n p2
       \<and> (map_of (syncers infm) (serviceSpecSyncerKey n p1) = None
            \<and> map_of (syncers infm) (serviceSpecSyncerKey n p2) = None \<longrightarrow>
          (\<exists>i1 i2. OnPartOfServiceSpec infm n p1 = (None, i1)
             \<and> OnPartOfServiceSpec i1 n p2 = (None, i2)
             \<and> map_of (syncers i2) (serviceSpecSyncerKey n p1) = Some (nextSyncer (store infm))
             \<and> map_of (syncers i2) (serviceSpecSyncerKey n p2)
                 = Some (Suc (nextSyncer (store infm)))))
       \<and> (map_of (syncers infm) (''service-instance-spec-'' @ n @ ''-'' @ i @ ''-'' @ p1) = None
            \<and> map_of (syncers infm) (''service-instance-spec-'' @ n @ ''-'' @ i @ ''-'' @ p2) = None
            \<longrightarrow>
          (\<exists>i1 i2. OnPartOfServiceInstanceSpec infm n i p1 = (None, i1)
             \<and> OnPartOfServiceInstanceSpec i1 n i p2 = (None, i2)
             \<and> map_of (syncers i2) (''service-instance-spec-'' @ n @ ''-'' @ i @ ''-'' @ p1)
                 = Some (nextSyncer (store infm))
             \<and> map_of (syncers i2) (''service-instance-spec-'' @ n @ ''-'' @ i @ ''-'' @ p2)
                 = Some (Suc (nextSyncer (store infm)))))
       \<and> (map_of (syncers infm) (''service-instance-status-'' @ n @ ''-'' @ i @ ''-'' @ p1) = None
            \<and> map_of (syncers infm) (''service-instance-status-'' @ n @ ''-'' @ i @ ''-'' @ p2) = None
            \<longrightarrow>
          (\<exists>i1 i2. OnPartOfServiceInstanceStatus infm n i p1 = (None, i1)
             \<and> OnPartOfServiceInstanceStatus i1 n i p2 = (None, i2)
             \<and> map_of (syncers i2) (''service-instance-status-'' @ n @ ''-'' @ i @ ''-'' @ p1)
                 = Some (nextSyncer (store infm))
             \<and> map_of (syncers i2) (''service-instance-status-'' @ n @ ''-'' @ i @ ''-'' @ p2)
                 = Some (Suc (nextSyncer (store infm)))))
       \<and> (fst (OnPartOfTenantSpec infm n p1) = None \<longrightarrow>
            OnPartOfTenantSpec (snd (OnPartOfTenantSpec infm n p1)) n p2 =
              (Some ErrAlreadyWatched, snd (OnPartOfTenantSpec infm n p1)))
       \<and> (fst (OnPartOfIngressSpec infm n p1) = None \<longrightarrow>
            OnPartOfIngressSpec (snd (OnPartOfIngressSpec infm n p1)) n p2 =
              (Some ErrAlreadyWatched, snd (OnPartOfIngressSpec infm n p1)))"
proof -
  have k: "serviceSpecSyncerKey n p1 \<noteq> serviceSpecSyncerKey n p2"
    "''service-instance-spec-'' @ n @ ''-'' @ i @ ''-'' @ p1
       \<noteq> ''service-instance-spec-'' @ n @ ''-'' @ i @ ''-'' @ p2"
    "''service-instance-status-'' @ n @ ''-'' @ i @ ''-'' @ p1
       \<noteq> ''service-instance-status-'' @ n @ ''-'' @ i @ ''-'' @ p2"
    using assms(1) by (simp_all add: serviceSpecSyncerKey_def)
  show ?thesis
    unfolding OnPartOfServiceSpec_def OnPartOfServiceInstanceSpec_def
      OnPartOfServiceInstanceStatus_def OnPartOfTenantSpec_def OnPartOfIngressSpec_def
    using k onSpecPart_twice [OF k(1) assms(2-4)] onSpecPart_twice [OF k(2) assms(2-4)]
      onSpecPart_twice [OF k(3) assms(2-4)]
    by (simp add: onSpecPart_same_key_again)
qed


lemma freshInformer_ready:
  "\<not> closed freshInformer" "fault (store freshInformer) = None"
  "syncFault (store freshInformer) = None" "syncers freshInformer = []"
  "nextSyncer (store freshInformer) = 0"
  by (simp_all add: freshInformer_def emptyStore_def)

theorem syncerKey_selector_of_single_key_watches_witness:
  "[] \<noteq> ''canary''
   \<and> serviceSpecSyncerKey ''orders'' [] = ''service-spec-orders-''
   \<and> serviceSpecSyncerKey ''orders'' ''canary'' = ''service-spec-orders-canary''
   \<and> (\<exists>i1 i2. OnPartOfServiceSpec freshInformer ''orders'' [] = (None, i1)
         \<and> OnPartOfServiceSpec i1 ''orders'' ''canary'' = (None, i2)
         \<and> map_of (syncers i2) ''service-spec-orders-'' = Some 0
         \<and> map_of (syncers i2) ''service-spec-orders-canary'' = Some (Suc 0))"
proof -
  have distinct_paths: "[] \<noteq> ''canary''" by simp
  note both = syncerKey_selector_of_single_key_watches [OF distinct_paths
      freshInformer_ready(1-3), of "''orders''", THEN conjunct2, THEN conjunct1]
  from both show ?thesis
    by (simp add: freshInformer_ready serviceSpecSyncerKey_def)
qed

theorem tenant_watch_syncerKey_ignores_selector:
  "''services'' \<noteq> ''name''
   \<and> fst (OnPartOfTenantSpec freshInformer ''retail'' ''services'') = None
   \<and> fst (OnPartOfTenantSpec (snd (OnPartOfTenantSpec freshInformer ''retail'' ''services''))
            ''retail'' ''name'') = Some ErrAlreadyWatched
   \<and> fst (OnPartOfIngressSpec freshInformer ''shop'' ''rules'') = None
   \<and> fst (OnPartOfIngressSpec (snd (OnPartOfIngressSpec freshInformer ''shop'' ''rules''))
            ''shop'' ''name'') = Some ErrAlreadyWatched"
  by (simp add: OnPartOfTenantSpec_def OnPartOfIngressSpec_def onSpecPart_def
      freshInformer_def emptyStore_def storeSyncer_def syncerSyncRaw_def)

text \<open>
  C7 (as amended). On an informer that has not been closed, a registration (single-key
  or prefix) under a syncerKey that already has a syncer registered returns
  \<open>AlreadyWatched\<close> and leaves the whole state as it was: the registered syncer stays,
  and no syncer is created or added.
\<close>

theorem second_registration_already_watched:
  assumes "map_of (syncers infm) syncerKey = Some syncer" and "\<not> closed infm"
  shows "onSpecPart infm storeKey syncerKey gjsonPath = (Some ErrAlreadyWatched, infm)
       \<and> onSpecs infm storePrefix syncerKey = (Some ErrAlreadyWatched, infm)"
  using assms by (simp add: onSpecPart_watched onSpecs_watched)

theorem second_registration_already_watched_witness:
  "fst (OnAllIngressSpecs freshInformer) = None
   \<and> map_of (syncers (snd (OnAllIngressSpecs freshInformer))) ''prefix-ingress'' = Some 0
   \<and> \<not> closed (snd (OnAllIngressSpecs freshInformer))
   \<and> OnAllIngressSpecs (snd (OnAllIngressSpecs freshInformer)) =
       (Some ErrAlreadyWatched, snd (OnAllIngressSpecs freshInformer))
   \<and> onSpecPart (snd (OnAllIngressSpecs freshInformer)) (IngressSpecKey ''shop'')
        ''prefix-ingress'' [] =
       (Some ErrAlreadyWatched, snd (OnAllIngressSpecs freshInformer))"
proof -
  have first: "fst (OnAllIngressSpecs freshInformer) = None"
    and reg: "map_of (syncers (snd (OnAllIngressSpecs freshInformer))) ''prefix-ingress'' = Some 0"
    and opened: "\<not> closed (snd (OnAllIngressSpecs freshInformer))"
    by (simp_all add: OnAllIngressSpecs_def onSpecs_def freshInformer_def emptyStore_def
        storeSyncer_def syncerSyncPrefix_def)
  from second_registration_already_watched [OF reg opened, of "IngressSpecKey ''shop''" "[]"
      IngressPrefix] first reg opened
  show ?thesis by (simp add: OnAllIngressSpecs_def)
qed

theorem registration_after_close_is_closed_not_already_watched:
  "fst (OnPartOfServiceSpec freshInformer ''orders'' []) = None
   \<and> map_of (syncers (Close (snd (OnPartOfServiceSpec freshInformer ''orders'' []))))
        (serviceSpecSyncerKey ''orders'' []) = Some 0
   \<and> fst (OnPartOfServiceSpec (Close (snd (OnPartOfServiceSpec freshInformer ''orders'' [])))
            ''orders'' []) = Some ErrClosed"
  by (simp add: OnPartOfServiceSpec_def onSpecPart_def freshInformer_def emptyStore_def
      storeSyncer_def syncerSyncRaw_def Close_def serviceSpecSyncerKey_def)

lemma stop_absent: "map_of (syncers infm) k = None \<Longrightarrow> stopSyncOneKey infm k = infm"
  by (simp add: stopSyncOneKey_def)

lemma stop_removes: "map_of (syncers (stopSyncOneKey infm k)) k = None"
  by (simp add: stopSyncOneKey_def delete_conv' split: option.splits)

lemma stop_twice: "stopSyncOneKey (stopSyncOneKey infm k) k = stopSyncOneKey infm k"
  by (rule stop_absent) (rule stop_removes)

lemma stop_closes:
  "map_of (syncers infm) k = Some syncer \<Longrightarrow>
   syncer \<in> closedSyncers (store (stopSyncOneKey infm k))"
  by (simp add: stopSyncOneKey_def syncerClose_def)

lemma stop_keeps_closed: "closed (stopSyncOneKey infm k) = closed infm"
  by (simp add: stopSyncOneKey_def split: option.splits)

text \<open>
  C8. Stopping is idempotent and \<open>Close\<close> is terminal: stopping a key that has no
  syncer registered leaves the informer as it is, so a second consecutive stop changes
  nothing (also through \<open>StopWatchServiceSpec\<close> and \<open>StopWatchServiceInstanceSpec\<close>);
  \<open>Close\<close> marks the informer closed, stopping keeps it closed, and on a closed informer
  each of the twelve registration methods returns \<open>Closed\<close> and the state it was given.
\<close>

theorem stop_idempotent_and_close_terminal:
  "(map_of (syncers infm) k = None \<longrightarrow> stopSyncOneKey infm k = infm)
   \<and> stopSyncOneKey (stopSyncOneKey infm k) k = stopSyncOneKey infm k
   \<and> StopWatchServiceSpec (StopWatchServiceSpec infm n p) n p = StopWatchServiceSpec infm n p
   \<and> StopWatchServiceInstanceSpec (StopWatchServiceInstanceSpec infm n) n =
       StopWatchServiceInstanceSpec infm n
   \<and> closed (Close infm)
   \<and> closed (stopSyncOneKey (Close infm) k)
   \<and> (closed c \<longrightarrow>
        closed (stopSyncOneKey c k)
      \<and> closed (Close c)
      \<and> OnPartOfServiceSpec c n p = (Some ErrClosed, c)
      \<and> OnPartOfServiceInstanceSpec c n i p = (Some ErrClosed, c)
      \<and> OnPartOfServiceInstanceStatus c n i p = (Some ErrClosed, c)
      \<and> OnPartOfTenantSpec c n p = (Some ErrClosed, c)
      \<and> OnPartOfIngressSpec c n p = (Some ErrClosed, c)
      \<and> OnAllServiceSpecs c = (Some ErrClosed, c)
      \<and> OnServiceInstanceSpecs c n = (Some ErrClosed, c)
      \<and> OnAllServiceInstanceSpecs c = (Some ErrClosed, c)
      \<and> OnServiceInstanceStatuses c n = (Some ErrClosed, c)
      \<and> OnAllServiceInstanceStatuses c = (Some ErrClosed, c)
      \<and> OnAllTenantSpecs c = (Some ErrClosed, c)
      \<and> OnAllIngressSpecs c = (Some ErrClosed, c))"
  by (simp add: stop_absent stop_twice stop_keeps_closed Close_def
      StopWatchServiceSpec_def StopWatchServiceInstanceSpec_def
      OnPartOfServiceSpec_def OnPartOfServiceInstanceSpec_def OnPartOfServiceInstanceStatus_def
      OnPartOfTenantSpec_def OnPartOfIngressSpec_def OnAllServiceSpecs_def
      OnServiceInstanceSpecs_def OnAllServiceInstanceSpecs_def onServiceInstanceSpecs_def
      OnServiceInstanceStatuses_def OnAllServiceInstanceStatuses_def
      onServiceInstanceStatuses_def OnAllTenantSpecs_def OnAllIngressSpecs_def
      onSpecPart_closed onSpecs_closed)

theorem stop_idempotent_and_close_terminal_witness:
  "map_of (syncers freshInformer) ''service-spec-orders-'' = None
   \<and> stopSyncOneKey freshInformer ''service-spec-orders-'' = freshInformer
   \<and> closed (Close freshInformer)
   \<and> OnPartOfServiceSpec (Close freshInformer) ''orders'' [] =
       (Some ErrClosed, Close freshInformer)
   \<and> OnAllIngressSpecs (Close freshInformer) = (Some ErrClosed, Close freshInformer)"
proof -
  have absent: "map_of (syncers freshInformer) ''service-spec-orders-'' = None"
    by (simp add: freshInformer_ready)
  have shut: "closed (Close freshInformer)"
    by (simp add: Close_def)
  note t = stop_idempotent_and_close_terminal [of freshInformer "''service-spec-orders-''"
      "''orders''" "[]" "Close freshInformer"]
  from t absent shut show ?thesis by simp
qed

section \<open>The informer: delivery on a single-key watch\<close>

lemma EventUpdate_not_Delete: "EventUpdate \<noteq> EventDelete"
  by (simp add: EventUpdate_def EventDelete_def)

lemma sync_nil:
  "sync (specFunc zero u fn) syncerKey (infm, c) (None # ch) =
     sync (specFunc zero u fn) syncerKey
       (if fst (fn \<lparr>EventType = EventDelete, RawKV = None\<rparr> zero c) then infm
        else stopSyncOneKey infm syncerKey,
        snd (fn \<lparr>EventType = EventDelete, RawKV = None\<rparr> zero c)) ch"
  by (simp add: syncBody_def specFunc_def split: prod.splits)

lemma sync_decodable:
  "u (Value r) = Some e \<Longrightarrow>
   sync (specFunc zero u fn) syncerKey (infm, c) (Some r # ch) =
     sync (specFunc zero u fn) syncerKey
       (if fst (fn \<lparr>EventType = EventUpdate, RawKV = Some r\<rparr> e c) then infm
        else stopSyncOneKey infm syncerKey,
        snd (fn \<lparr>EventType = EventUpdate, RawKV = Some r\<rparr> e c)) ch"
  using EventUpdate_not_Delete by (simp add: syncBody_def specFunc_def split: prod.splits)

lemma sync_undecodable:
  "u (Value r) = None \<Longrightarrow>
   sync (specFunc zero u fn) syncerKey (infm, c) (Some r # ch) =
     sync (specFunc zero u fn) syncerKey (infm, c) ch"
  using EventUpdate_not_Delete by (simp add: syncBody_def specFunc_def)

text \<open>
  C5 (as amended). A single-key watch consuming the next element its channel delivers;
  the five closures are those of \<open>OnPartOfServiceSpec\<close>, \<open>OnPartOfServiceInstanceSpec\<close>,
  \<open>OnPartOfServiceInstanceStatus\<close>, \<open>OnPartOfTenantSpec\<close> and \<open>OnPartOfIngressSpec\<close>
  around the caller's callback \<open>fn\<close>. For each of them:
  \<^item> a nil record: \<open>fn\<close> is called with the event of kind \<open>Delete\<close> (no raw record) and
    the zero-valued entity;
  \<^item> a non-nil record \<open>r\<close> whose value decodes to \<open>e\<close>: \<open>fn\<close> is called with the event
    of kind \<open>Update\<close> carrying \<open>r\<close>, and with \<open>e\<close>;
  \<^item> a non-nil record whose value does not decode: \<open>fn\<close> is not called and the watch
    goes on as it was;
  \<^item> when \<open>fn\<close> answers \<open>False\<close>, the informer goes on as
    \<open>stopSyncOneKey infm syncerKey\<close>: the syncer registered under the watch's key is
    closed and the registration removed.
  In every case the loop goes on with the rest of what the channel delivers: it has no
  exit of its own, so a later element is handled in the same way.
\<close>

theorem sync_delivers_events_and_closes_syncer_on_false:
  "sync (serviceSpecFunc uS fnS) syncerKey (infm, cS) (None # ch) =
     sync (serviceSpecFunc uS fnS) syncerKey
       (if fst (fnS \<lparr>EventType = EventDelete, RawKV = None\<rparr> zeroService cS) then infm
        else stopSyncOneKey infm syncerKey,
        snd (fnS \<lparr>EventType = EventDelete, RawKV = None\<rparr> zeroService cS)) ch
   \<and> (uS (Value r) = Some eS \<longrightarrow>
       sync (serviceSpecFunc uS fnS) syncerKey (infm, cS) (Some r # ch) =
         sync (serviceSpecFunc uS fnS) syncerKey
           (if fst (fnS \<lparr>EventType = EventUpdate, RawKV = Some r\<rparr> eS cS) then infm
            else stopSyncOneKey infm syncerKey,
            snd (fnS \<lparr>EventType = EventUpdate, RawKV = Some r\<rparr> eS cS)) ch)
   \<and> (uS (Value r) = None \<longrightarrow>
       sync (serviceSpecFunc uS fnS) syncerKey (infm, cS) (Some r # ch) =
         sync (serviceSpecFunc uS fnS) syncerKey (infm, cS) ch)
   \<and> sync (serviceInstanceSpecFunc uP fnP) syncerKey (infm, cP) (None # ch) =
     sync (serviceInstanceSpecFunc uP fnP) syncerKey
       (if fst (fnP \<lparr>EventType = EventDelete, RawKV = None\<rparr> zeroServiceInstanceSpec cP)
        then infm else stopSyncOneKey infm syncerKey,
        snd (fnP \<lparr>EventType = EventDelete, RawKV = None\<rparr> zeroServiceInstanceSpec cP)) ch
   \<and> (uP (Value r) = Some eP \<longrightarrow>
       sync (serviceInstanceSpecFunc uP fnP) syncerKey (infm, cP) (Some r # ch) =
         sync (serviceInstanceSpecFunc uP fnP) syncerKey
           (if fst (fnP \<lparr>EventType = EventUpdate, RawKV = Some r\<rparr> eP cP) then infm
            else stopSyncOneKey infm syncerKey,
            snd (fnP \<lparr>EventType = EventUpdate, RawKV = Some r\<rparr> eP cP)) ch)
   \<and> (uP (Value r) = None \<longrightarrow>
       sync (serviceInstanceSpecFunc uP fnP) syncerKey (infm, cP) (Some r # ch) =
         sync (serviceInstanceSpecFunc uP fnP) syncerKey (infm, cP) ch)
   \<and> sync (serviceInstanceStatusFunc uQ fnQ) syncerKey (infm, cQ) (None # ch) =
     sync (serviceInstanceStatusFunc uQ fnQ) syncerKey
       (if fst (fnQ \<lparr>EventType = EventDelete, RawKV = None\<rparr> zeroServiceInstanceStatus cQ)
        then infm else stopSyncOneKey infm syncerKey,
        snd (fnQ \<lparr>EventType = EventDelete, RawKV = None\<rparr> zeroServiceInstanceStatus cQ)) ch
   \<and> (uQ (Value r) = Some eQ \<longrightarrow>
       sync (serviceInstanceStatusFunc uQ fnQ) syncerKey (infm, cQ) (Some r # ch) =
         sync (serviceInstanceStatusFunc uQ fnQ) syncerKey
           (if fst (fnQ \<lparr>EventType = EventUpdate, RawKV = Some r\<rparr> eQ cQ) then infm
            else stopSyncOneKey infm syncerKey,
            snd (fnQ \<lparr>EventType = EventUpdate, RawKV = Some r\<rparr> eQ cQ)) ch)
   \<and> (uQ (Value r) = None \<longrightarrow>
       sync (serviceInstanceStatusFunc uQ fnQ) syncerKey (infm, cQ) (Some r # ch) =
         sync (serviceInstanceStatusFunc uQ fnQ) syncerKey (infm, cQ) ch)
   \<and> sync (tenantSpecFunc uT fnT) syncerKey (infm, cT) (None # ch) =
     sync (tenantSpecFunc uT fnT) syncerKey
       (if fst (fnT \<lparr>EventType = EventDelete, RawKV = None\<rparr> zeroTenant cT) then infm
        else stopSyncOneKey infm syncerKey,
        snd (fnT \<lparr>EventType = EventDelete, RawKV = None\<rparr> zeroTenant cT)) ch
   \<and> (uT (Value r) = Some eT \<longrightarrow>
       sync (tenantSpecFunc uT fnT) syncerKey (infm, cT) (Some r # ch) =
         sync (tenantSpecFunc uT fnT) syncerKey
           (if fst (fnT \<lparr>EventType = EventUpdate, RawKV = Some r\<rparr> eT cT) then infm
            else stopSyncOneKey infm syncerKey,
            snd (fnT \<lparr>EventType = EventUpdate, RawKV = Some r\<rparr> eT cT)) ch)
   \<and> (uT (Value r) = None \<longrightarrow>
       sync (tenantSpecFunc uT fnT) syncerKey (infm, cT) (Some r # ch) =
         sync (tenantSpecFunc uT fnT) syncerKey (infm, cT) ch)
   \<and> sync (ingressSpecFunc uI fnI) syncerKey (infm, cI) (None # ch) =
     sync (ingressSpecFunc uI fnI) syncerKey
       (if fst (fnI \<lparr>EventType = EventDelete, RawKV = None\<rparr> zeroIngress cI) then infm
        else stopSyncOneKey infm syncerKey,
        snd (fnI \<lparr>EventType = EventDelete, RawKV = None\<rparr> zeroIngress cI)) ch
   \<and> (uI (Value r) = Some eI \<longrightarrow>
       sync (ingressSpecFunc uI fnI) syncerKey (infm, cI) (Some r # ch) =
         sync (ingressSpecFunc uI fnI) syncerKey
           (if fst (fnI \<lparr>EventType = EventUpdate, RawKV = Some r\<rparr> eI cI) then infm
            else stopSyncOneKey infm syncerKey,
            snd (fnI \<lparr>EventType = EventUpdate, RawKV = Some r\<rparr> eI cI)) ch)
   \<and> (uI (Value r) = None \<longrightarrow>
       sync (ingressSpecFunc uI fnI) syncerKey (infm, cI) (Some r # ch) =
         sync (ingressSpecFunc uI fnI) syncerKey (infm, cI) ch)
   \<and> sync fn syncerKey state [] = state
   \<and> (map_of (syncers infm) syncerKey = Some syncer \<longrightarrow>
        syncer \<in> closedSyncers (store (stopSyncOneKey infm syncerKey))
      \<and> map_of (syncers (stopSyncOneKey infm syncerKey)) syncerKey = None)"
  unfolding serviceSpecFunc_def serviceInstanceSpecFunc_def serviceInstanceStatusFunc_def
    tenantSpecFunc_def ingressSpecFunc_def
  by (intro conjI impI sync_nil sync_decodable sync_undecodable stop_closes stop_removes)
    simp_all

theorem sync_delivers_events_and_closes_syncer_on_false_witness:
  "map_of (syncers (snd (OnPartOfServiceSpec freshInformer ''orders'' [])))
      ''service-spec-orders-'' = Some 0
   \<and> 0 \<notin> closedSyncers (store (snd (OnPartOfServiceSpec freshInformer ''orders'' [])))
   \<and> exampleUnmarshalService ''name: orders'' = Some orders
   \<and> exampleUnmarshalService ''{'' = None
   \<and> sync (serviceSpecFunc exampleUnmarshalService recordUntilDelete) ''service-spec-orders-''
        (snd (OnPartOfServiceSpec freshInformer ''orders'' []), [])
        [Some \<lparr>Key = ''/services/spec/orders'', Value = ''name: orders'', ModRevision = 1\<rparr>,
         Some \<lparr>Key = ''/services/spec/orders'', Value = ''{'', ModRevision = 2\<rparr>,
         None] =
       (stopSyncOneKey (snd (OnPartOfServiceSpec freshInformer ''orders'' []))
          ''service-spec-orders-'',
        [(\<lparr>EventType = EventUpdate,
           RawKV = Some \<lparr>Key = ''/services/spec/orders'', Value = ''name: orders'',
                         ModRevision = 1\<rparr>\<rparr>, orders),
         (\<lparr>EventType = EventDelete, RawKV = None\<rparr>, zeroService)])
   \<and> 0 \<in> closedSyncers
         (store (stopSyncOneKey (snd (OnPartOfServiceSpec freshInformer ''orders'' []))
                  ''service-spec-orders-''))
   \<and> map_of (syncers (stopSyncOneKey (snd (OnPartOfServiceSpec freshInformer ''orders'' []))
                        ''service-spec-orders-''))
        ''service-spec-orders-'' = None"
proof -
  let ?i = "snd (OnPartOfServiceSpec freshInformer ''orders'' [])"
  let ?r1 = "\<lparr>Key = ''/services/spec/orders'', Value = ''name: orders'', ModRevision = 1\<rparr>"
  let ?r2 = "\<lparr>Key = ''/services/spec/orders'', Value = ''{'', ModRevision = 2\<rparr>"
  let ?seen = "[(\<lparr>EventType = EventUpdate, RawKV = Some ?r1\<rparr>, orders)]"
  let ?f = "serviceSpecFunc exampleUnmarshalService recordUntilDelete"
  have reg: "map_of (syncers ?i) ''service-spec-orders-'' = Some 0"
    and opened: "0 \<notin> closedSyncers (store ?i)"
    by (simp_all add: OnPartOfServiceSpec_def onSpecPart_def freshInformer_def emptyStore_def
        storeSyncer_def syncerSyncRaw_def serviceSpecSyncerKey_def)
  have dec: "exampleUnmarshalService (Value ?r1) = Some orders"
    and junk: "exampleUnmarshalService (Value ?r2) = None"
    by (simp_all add: exampleUnmarshalService_def)
  note step = sync_delivers_events_and_closes_syncer_on_false
    [where uS = exampleUnmarshalService and fnS = recordUntilDelete
       and syncerKey = "''service-spec-orders-''" and infm = ?i and syncer = 0]
  have upd: "sync ?f ''service-spec-orders-'' (?i, []) [Some ?r1, Some ?r2, None] =
      sync ?f ''service-spec-orders-'' (?i, ?seen) [Some ?r2, None]"
    using step [where cS = "[]" and r = ?r1 and eS = orders and ch = "[Some ?r2, None]",
        THEN conjunct2, THEN conjunct1] dec EventUpdate_not_Delete
    by (simp add: recordUntilDelete_def)
  have skip: "sync ?f ''service-spec-orders-'' (?i, ?seen) [Some ?r2, None] =
      sync ?f ''service-spec-orders-'' (?i, ?seen) [None]"
    using step [where cS = ?seen and r = ?r2 and ch = "[None]",
        THEN conjunct2, THEN conjunct2, THEN conjunct1] junk
    by simp
  have del: "sync ?f ''service-spec-orders-'' (?i, ?seen) [None] =
      (stopSyncOneKey ?i ''service-spec-orders-'',
       ?seen @ [(\<lparr>EventType = EventDelete, RawKV = None\<rparr>, zeroService)])"
    using step [where cS = ?seen and ch = "[]", THEN conjunct1]
    by (simp add: recordUntilDelete_def)
  have stopped: "0 \<in> closedSyncers (store (stopSyncOneKey ?i ''service-spec-orders-''))"
    "map_of (syncers (stopSyncOneKey ?i ''service-spec-orders-'')) ''service-spec-orders-'' = None"
    using step [THEN conjunct2, THEN conjunct2, THEN conjunct2, THEN conjunct2, THEN conjunct2,
        THEN conjunct2, THEN conjunct2, THEN conjunct2, THEN conjunct2, THEN conjunct2,
        THEN conjunct2, THEN conjunct2, THEN conjunct2, THEN conjunct2, THEN conjunct2,
        THEN conjunct2] reg
    by simp_all
  from reg opened dec junk upd skip del stopped show ?thesis by simp
qed

theorem callback_called_again_after_returning_false:
  "map_of (syncers (snd (OnPartOfServiceSpec freshInformer ''orders'' [])))
      ''service-spec-orders-'' = Some 0
   \<and> \<not> fst (recordUntilDelete \<lparr>EventType = EventDelete, RawKV = None\<rparr> zeroService [])
   \<and> sync (serviceSpecFunc exampleUnmarshalService recordUntilDelete) ''service-spec-orders-''
        (snd (OnPartOfServiceSpec freshInformer ''orders'' []), [])
        [None,
         Some \<lparr>Key = ''/services/spec/orders'', Value = ''name: orders'', ModRevision = 2\<rparr>] =
       (stopSyncOneKey (snd (OnPartOfServiceSpec freshInformer ''orders'' []))
          ''service-spec-orders-'',
        [(\<lparr>EventType = EventDelete, RawKV = None\<rparr>, zeroService),
         (\<lparr>EventType = EventUpdate,
           RawKV = Some \<lparr>Key = ''/services/spec/orders'', Value = ''name: orders'',
                         ModRevision = 2\<rparr>\<rparr>, orders)])"
  by (simp add: OnPartOfServiceSpec_def onSpecPart_def freshInformer_def emptyStore_def
      storeSyncer_def syncerSyncRaw_def serviceSpecSyncerKey_def syncBody_def
      serviceSpecFunc_def specFunc_def recordUntilDelete_def exampleUnmarshalService_def
      EventUpdate_def EventDelete_def stopSyncOneKey_def syncerClose_def)

end
